theory Spec2Isabelle
  imports Main "HOL-Library.Sublist" "HOL-Library.Char_ord" "HOL-Library.List_Lexorder"
begin

section \<open>Python values and exceptions\<close>

text \<open>
  The playlist document is the decoded JSON answer of the catalog API: \<open>None\<close>, booleans,
  numbers (integers here), strings, lists and dicts with string keys. A dict is an
  association list read with \<open>map_of\<close>; its keys are meant to be distinct.
\<close>

datatype json =
    JNull
  | JBool bool
  | JNum int
  | JStr string
  | JArr "json list"
  | JObj "(string \<times> json) list"

datatype exn = KeyError | TypeError | IndexError | ValueError | AttributeError | IOError | Exception

text \<open>A raw record is the dict literal an extraction method appends to its list.\<close>

type_synonym pyrec = "(string \<times> json) list"

text \<open>\<open>v[k]\<close> with a string key: only a dict can be subscripted by a string.\<close>

fun getitem :: "json \<Rightarrow> string \<Rightarrow> exn + json" where
  "getitem (JObj kvs) k = (case map_of kvs k of None \<Rightarrow> Inl KeyError | Some v \<Rightarrow> Inr v)"
| "getitem JNull k = Inl TypeError"
| "getitem (JBool b) k = Inl TypeError"
| "getitem (JNum n) k = Inl TypeError"
| "getitem (JStr s) k = Inl TypeError"
| "getitem (JArr xs) k = Inl TypeError"

text \<open>A chain of subscripts \<open>v[k1][k2]...\<close>, evaluated left to right.\<close>

fun path :: "json \<Rightarrow> string list \<Rightarrow> exn + json" where
  "path v [] = Inr v"
| "path v (k # ks) = (case getitem v k of Inl e \<Rightarrow> Inl e | Inr w \<Rightarrow> path w ks)"

text \<open>\<open>v[0]\<close>: the first element of a list or string; a dict has no key \<open>0\<close>.\<close>

fun getitem0 :: "json \<Rightarrow> exn + json" where
  "getitem0 (JArr xs) = (case xs of [] \<Rightarrow> Inl IndexError | x # _ \<Rightarrow> Inr x)"
| "getitem0 (JStr s) = (case s of [] \<Rightarrow> Inl IndexError | c # _ \<Rightarrow> Inr (JStr [c]))"
| "getitem0 (JObj kvs) = Inl KeyError"
| "getitem0 JNull = Inl TypeError"
| "getitem0 (JBool b) = Inl TypeError"
| "getitem0 (JNum n) = Inl TypeError"

text \<open>
  \<open>for x in v\<close>: the elements of a list, the keys of a dict, the characters of a string;
  anything else is not iterable.
\<close>

fun iter :: "json \<Rightarrow> exn + json list" where
  "iter (JArr xs) = Inr xs"
| "iter (JObj kvs) = Inr (map (\<lambda>kv. JStr (fst kv)) kvs)"
| "iter (JStr s) = Inr (map (\<lambda>c. JStr [c]) s)"
| "iter JNull = Inl TypeError"
| "iter (JBool b) = Inl TypeError"
| "iter (JNum n) = Inl TypeError"

text \<open>Sequencing of statements that may raise: the first exception ends the block.\<close>

definition and_then :: "exn + 'a \<Rightarrow> ('a \<Rightarrow> exn + 'b) \<Rightarrow> exn + 'b" where
  "and_then m f = (case m of Inl e \<Rightarrow> Inl e | Inr v \<Rightarrow> f v)"

section \<open>Extractor (spotify\_extractor.py)\<close>

text \<open>
  Each method runs its whole loop inside one \<open>try\<close>; the handler logs and falls off the end
  of the method, so the method returns \<open>None\<close>. The \<open>_body\<close> functions are the \<open>try\<close>
  blocks, the \<open>extract_\<close> functions add the handler.
\<close>

subsection \<open>extract\_album\_data\<close>

definition album_dict :: "json \<Rightarrow> exn + pyrec" where
  "album_dict data =
     (and_then (path data [''track'', ''album'', ''id'']) (\<lambda>album_id.
      and_then (path data [''track'', ''album'', ''name'']) (\<lambda>album_name.
      and_then (path data [''track'', ''album'', ''release_date'']) (\<lambda>album_release_date.
      and_then (path data [''track'', ''album'', ''total_tracks'']) (\<lambda>album_total_tracks.
      and_then (path data [''track'', ''album'', ''external_urls'', ''spotify'']) (\<lambda>album_url.
      Inr [(''id'', album_id),
           (''name'', album_name),
           (''release_date'', album_release_date),
           (''total_tracks'', album_total_tracks),
           (''url'', album_url)]))))))"

fun album_loop :: "json list \<Rightarrow> pyrec list \<Rightarrow> exn + pyrec list" where
  "album_loop [] album_list = Inr album_list"
| "album_loop (data # rest) album_list =
     (case getitem data ''track'' of
        Inl e \<Rightarrow> Inl e
      | Inr track \<Rightarrow>
          if track = JNull then album_loop rest album_list
          else (case album_dict data of
                  Inl e \<Rightarrow> Inl e
                | Inr d \<Rightarrow> album_loop rest (album_list @ [d])))"

definition extract_album_body :: "json \<Rightarrow> exn + pyrec list" where
  "extract_album_body playlist_data =
     (and_then (getitem playlist_data ''items'') (\<lambda>its.
      and_then (iter its) (\<lambda>ds.
      album_loop ds [])))"

definition extract_album_data :: "json \<Rightarrow> pyrec list option" where
  "extract_album_data playlist_data =
     (case extract_album_body playlist_data of
        Inl e \<Rightarrow> None
      | Inr album_list \<Rightarrow> Some album_list)"

subsection \<open>extract\_artist\_data\<close>

definition artist_dict :: "json \<Rightarrow> exn + pyrec" where
  "artist_dict artist =
     (and_then (getitem artist ''id'') (\<lambda>artist_id.
      and_then (getitem artist ''name'') (\<lambda>artist_name.
      and_then (path artist [''external_urls'', ''spotify'']) (\<lambda>artist_url.
      Inr [(''id'', artist_id),
           (''name'', artist_name),
           (''url'', artist_url)]))))"

text \<open>The inner loop over the artists of one track.\<close>

fun artist_inner :: "json list \<Rightarrow> pyrec list \<Rightarrow> exn + pyrec list" where
  "artist_inner [] artist_list = Inr artist_list"
| "artist_inner (artist # rest) artist_list =
     (case artist_dict artist of
        Inl e \<Rightarrow> Inl e
      | Inr d \<Rightarrow> artist_inner rest (artist_list @ [d]))"

fun artist_loop :: "json list \<Rightarrow> pyrec list \<Rightarrow> exn + pyrec list" where
  "artist_loop [] artist_list = Inr artist_list"
| "artist_loop (data # rest) artist_list =
     (case getitem data ''track'' of
        Inl e \<Rightarrow> Inl e
      | Inr track \<Rightarrow>
          if track = JNull then artist_loop rest artist_list
          else (case and_then (path data [''track'', ''artists'']) iter of
                  Inl e \<Rightarrow> Inl e
                | Inr arts \<Rightarrow>
                    (case artist_inner arts artist_list of
                       Inl e \<Rightarrow> Inl e
                     | Inr artist_list' \<Rightarrow> artist_loop rest artist_list')))"

definition extract_artist_body :: "json \<Rightarrow> exn + pyrec list" where
  "extract_artist_body playlist_data =
     (and_then (getitem playlist_data ''items'') (\<lambda>its.
      and_then (iter its) (\<lambda>ds.
      artist_loop ds [])))"

definition extract_artist_data :: "json \<Rightarrow> pyrec list option" where
  "extract_artist_data playlist_data =
     (case extract_artist_body playlist_data of
        Inl e \<Rightarrow> None
      | Inr artist_list \<Rightarrow> Some artist_list)"

subsection \<open>extract\_song\_data\<close>

definition song_dict :: "json \<Rightarrow> exn + pyrec" where
  "song_dict data =
     (and_then (path data [''track'', ''id'']) (\<lambda>song_id.
      and_then (path data [''track'', ''name'']) (\<lambda>song_name.
      and_then (path data [''track'', ''duration_ms'']) (\<lambda>song_duration_ms.
      and_then (path data [''track'', ''popularity'']) (\<lambda>song_popularity.
      and_then (path data [''track'', ''external_urls'', ''spotify'']) (\<lambda>song_url.
      and_then (getitem data ''added_at'') (\<lambda>song_added_at.
      and_then (path data [''track'', ''album'', ''id'']) (\<lambda>album_id.
      and_then (path data [''track'', ''album'', ''artists'']) (\<lambda>album_artists.
      and_then (getitem0 album_artists) (\<lambda>first_artist.
      and_then (getitem first_artist ''id'') (\<lambda>artist_ids.
      Inr [(''id'', song_id),
           (''name'', song_name),
           (''added_at'', song_added_at),
           (''duration_ms'', song_duration_ms),
           (''popularity'', song_popularity),
           (''url'', song_url),
           (''album_id'', album_id),
           (''artist_ids'', artist_ids)])))))))))))"

fun song_loop :: "json list \<Rightarrow> pyrec list \<Rightarrow> exn + pyrec list" where
  "song_loop [] song_list = Inr song_list"
| "song_loop (data # rest) song_list =
     (case getitem data ''track'' of
        Inl e \<Rightarrow> Inl e
      | Inr track \<Rightarrow>
          if track = JNull then song_loop rest song_list
          else (case song_dict data of
                  Inl e \<Rightarrow> Inl e
                | Inr d \<Rightarrow> song_loop rest (song_list @ [d])))"

text \<open>
  The method is declared \<open>extract_song_data(self, playlist_data)\<close>: the first argument
  below is \<open>self.playlist_data\<close>, the second the parameter, which the body never reads.
\<close>

definition extract_song_body :: "json \<Rightarrow> json \<Rightarrow> exn + pyrec list" where
  "extract_song_body self_playlist_data playlist_data =
     (and_then (getitem self_playlist_data ''items'') (\<lambda>its.
      and_then (iter its) (\<lambda>ds.
      song_loop ds [])))"

definition extract_song_data :: "json \<Rightarrow> json \<Rightarrow> pyrec list option" where
  "extract_song_data self_playlist_data playlist_data =
     (case extract_song_body self_playlist_data playlist_data of
        Inl e \<Rightarrow> None
      | Inr song_list \<Rightarrow> Some song_list)"

text \<open>
  \<open>obj.extract_song_data(*args)\<close>: the method has one required positional parameter
  besides \<open>self\<close>, so a call with any other number of arguments raises \<open>TypeError\<close>
  before the body runs.
\<close>

definition call_extract_song_data :: "json \<Rightarrow> json list \<Rightarrow> exn + pyrec list option" where
  "call_extract_song_data self_playlist_data args =
     (case args of
        [playlist_data] \<Rightarrow> Inr (extract_song_data self_playlist_data playlist_data)
      | _ \<Rightarrow> Inl TypeError)"

section \<open>Tables: the part of pandas that the transformer and the sinks use\<close>

text \<open>
  A table has named columns and rows of cells. A cell holds the Python object it was built
  from, \<open>NaN\<close> where a record had no such key, or what the date conversion produced
  (a timestamp or \<open>NaT\<close>).
\<close>

datatype cell = Val json | NaN | Timestamp int | NaT

record dataframe =
  columns :: "string list"
  rows :: "cell list list"

text \<open>\<open>pd.DataFrame()\<close>\<close>

definition empty_frame :: dataframe where
  "empty_frame = \<lparr>columns = [], rows = []\<rparr>"

text \<open>\<open>df.empty\<close>: some axis has length zero.\<close>

definition df_empty :: "dataframe \<Rightarrow> bool" where
  "df_empty df = (columns df = [] \<or> rows df = [])"

text \<open>Keys in the order of their first appearance.\<close>

fun first_seen :: "string list \<Rightarrow> string list \<Rightarrow> string list" where
  "first_seen [] seen = seen"
| "first_seen (k # ks) seen =
     (if k \<in> set seen then first_seen ks seen else first_seen ks (seen @ [k]))"

text \<open>The cell a raw record contributes to a column.\<close>

definition field_of :: "pyrec \<Rightarrow> string \<Rightarrow> cell" where
  "field_of r c = (case map_of r c of None \<Rightarrow> NaN | Some v \<Rightarrow> Val v)"

text \<open>
  The type of a column is inferred from its cells: when every cell is a number, \<open>None\<close>
  or missing, and not all of them are \<open>None\<close>, the column is numeric and its \<open>None\<close> cells
  become \<open>NaN\<close>; every other column keeps its objects as they are.
\<close>

fun number_or_null :: "cell \<Rightarrow> bool" where
  "number_or_null (Val (JNum n)) = True"
| "number_or_null (Val JNull) = True"
| "number_or_null NaN = True"
| "number_or_null c = False"

fun number_or_nan :: "cell \<Rightarrow> bool" where
  "number_or_nan (Val (JNum n)) = True"
| "number_or_nan NaN = True"
| "number_or_nan c = False"

definition float_column :: "cell list \<Rightarrow> bool" where
  "float_column cs = (list_all number_or_null cs \<and> list_ex number_or_nan cs)"

definition infer_cell :: "cell list \<Rightarrow> cell \<Rightarrow> cell" where
  "infer_cell column x = (if float_column column \<and> x = Val JNull then NaN else x)"

text \<open>The cell of a record in the table built from the list \<open>recs\<close>.\<close>

definition table_cell :: "pyrec list \<Rightarrow> pyrec \<Rightarrow> string \<Rightarrow> cell" where
  "table_cell recs r c = infer_cell (map (\<lambda>r'. field_of r' c) recs) (field_of r c)"

definition row_of :: "pyrec list \<Rightarrow> string list \<Rightarrow> pyrec \<Rightarrow> cell list" where
  "row_of recs cols r = map (table_cell recs r) cols"

text \<open>
  \<open>pd.DataFrame(data)\<close> for \<open>None\<close> or a list of dicts: the columns are the keys of all
  the dicts in the order of first appearance, one row per dict, \<open>NaN\<close> for a missing key.
\<close>

definition record_keys :: "pyrec list \<Rightarrow> string list" where
  "record_keys recs = first_seen (concat (map (map fst) recs)) []"

definition pd_DataFrame :: "pyrec list option \<Rightarrow> dataframe" where
  "pd_DataFrame data =
     (case data of
        None \<Rightarrow> empty_frame
      | Some recs \<Rightarrow>
          (let cols = record_keys recs
           in \<lparr>columns = cols, rows = map (row_of recs cols) recs\<rparr>))"

text \<open>The cell of a row under a column name.\<close>

definition cell_of :: "string list \<Rightarrow> cell list \<Rightarrow> string \<Rightarrow> cell" where
  "cell_of cols r c = (case map_of (zip cols r) c of None \<Rightarrow> NaN | Some v \<Rightarrow> v)"

text \<open>\<open>df[c]\<close>\<close>

definition getcol :: "dataframe \<Rightarrow> string \<Rightarrow> exn + cell list" where
  "getcol df c =
     (if c \<in> set (columns df) then Inr (map (\<lambda>r. cell_of (columns df) r c) (rows df))
      else Inl KeyError)"

definition set_cell :: "string list \<Rightarrow> cell list \<Rightarrow> string \<Rightarrow> cell \<Rightarrow> cell list" where
  "set_cell cols r c v = map (\<lambda>kx. if fst kx = c then v else snd kx) (zip cols r)"

text \<open>
  \<open>df[c] = vals\<close>: replaces the column, or appends it when the name is new; values of
  the wrong length are refused.
\<close>

definition setcol :: "dataframe \<Rightarrow> string \<Rightarrow> cell list \<Rightarrow> exn + dataframe" where
  "setcol df c vals =
     (if length vals = length (rows df) then
        (if c \<in> set (columns df)
         then Inr (df\<lparr>rows := map (\<lambda>rv. set_cell (columns df) (fst rv) c (snd rv)) (zip (rows df) vals)\<rparr>)
         else Inr (df\<lparr>columns := columns df @ [c],
                       rows := map (\<lambda>rv. fst rv @ [snd rv]) (zip (rows df) vals)\<rparr>))
      else Inl ValueError)"

text \<open>
  \<open>drop_duplicates\<close> on one column compares the cells as Python objects: \<open>True\<close> equals \<open>1\<close>
  and \<open>False\<close> equals \<open>0\<close>, lists are equal element by element, dicts are equal when they
  hold equal values under the same keys in whatever order, \<open>NaN\<close> cells are equal to each
  other, and \<open>None\<close> differs from \<open>NaN\<close>. \<open>py_key\<close> maps equal objects to one representative.
\<close>

fun py_key :: "json \<Rightarrow> json" where
  "py_key JNull = JNull"
| "py_key (JBool b) = JNum (if b then 1 else 0)"
| "py_key (JNum n) = JNum n"
| "py_key (JStr s) = JStr s"
| "py_key (JArr xs) = JArr (map py_key xs)"
| "py_key (JObj kvs) = JObj (sort_key fst (map (\<lambda>kv. (fst kv, py_key (snd kv))) kvs))"

fun cell_key :: "cell \<Rightarrow> cell" where
  "cell_key (Val v) = Val (py_key v)"
| "cell_key NaN = NaN"
| "cell_key (Timestamp t) = Timestamp t"
| "cell_key NaT = NaT"

definition same_key :: "cell \<Rightarrow> cell \<Rightarrow> bool" where
  "same_key a b = (cell_key a = cell_key b)"

text \<open>A row is kept when no earlier row had its key (\<open>keep='first'\<close>, the default).\<close>

fun dedup_rows :: "string list \<Rightarrow> string \<Rightarrow> cell list list \<Rightarrow> cell list \<Rightarrow> cell list list" where
  "dedup_rows cols c [] seen = []"
| "dedup_rows cols c (r # rs) seen =
     (if list_ex (same_key (cell_of cols r c)) seen then dedup_rows cols c rs seen
      else r # dedup_rows cols c rs (seen @ [cell_of cols r c]))"

text \<open>
  \<open>df.drop_duplicates(subset=[c])\<close>: an empty table is returned as it is; an unknown
  column is a \<open>KeyError\<close>.
\<close>

definition drop_duplicates :: "dataframe \<Rightarrow> string \<Rightarrow> exn + dataframe" where
  "drop_duplicates df c =
     (if df_empty df then Inr df
      else if c \<in> set (columns df) then Inr (df\<lparr>rows := dedup_rows (columns df) c (rows df) []\<rparr>)
      else Inl KeyError)"






text \<open>
  \<open>df.to_csv(..., index=False)\<close> as the list of its lines: the header, then one line per
  row. A field that holds a comma, a quote or a line break is quoted.
\<close>

definition csv_quote :: "string \<Rightarrow> string" where
  "csv_quote s =
     (if list_ex (\<lambda>c. c = CHR '','' \<or> c = CHR 0x22 \<or> c = CHR 0x0A \<or> c = CHR 0x0D) s
      then [CHR 0x22] @ concat (map (\<lambda>c. if c = CHR 0x22 then [c, c] else [c]) s) @ [CHR 0x22]
      else s)"

fun join_commas :: "string list \<Rightarrow> string" where
  "join_commas [] = []"
| "join_commas [x] = x"
| "join_commas (x # y # zs) = x @ '','' @ join_commas (y # zs)"

definition csv_line :: "string list \<Rightarrow> string" where
  "csv_line texts = join_commas (map csv_quote texts)"

definition to_csv :: "(cell \<Rightarrow> string) \<Rightarrow> dataframe \<Rightarrow> string list" where
  "to_csv cell_text df = csv_line (columns df) # map (\<lambda>r. csv_line (map cell_text r)) (rows df)"

section \<open>The collaborators outside the repository\<close>

type_synonym client = nat
type_synonym config = "(string \<times> (string \<times> string) list) list"

text \<open>
  What the pipeline only calls: the date parser of pandas, the text of a cell in a CSV
  file, the file system, the clock, the configuration file and the three client libraries.
\<close>

record env =
  to_datetime :: "cell list \<Rightarrow> exn + cell list"
  cell_text :: "cell \<Rightarrow> string"
  makedirs_ok :: "string \<Rightarrow> bool"
  write_ok :: "string \<Rightarrow> bool"
  put_ok :: "client \<Rightarrow> string \<Rightarrow> string \<Rightarrow> bool"
  timestamps :: "string \<times> string \<times> string"
  config_file :: config
  spotipy_client :: "string \<Rightarrow> string \<Rightarrow> exn + client"
  boto3_client :: "string \<Rightarrow> string \<Rightarrow> string \<Rightarrow> exn + client"
  mysql_connect :: "string \<Rightarrow> string \<Rightarrow> string \<Rightarrow> string \<Rightarrow> exn + client"
  playlist_tracks :: "client \<Rightarrow> string \<Rightarrow> exn + json"

text \<open>\<open>config[section][key]\<close>; the connectors may hold \<open>None\<close> for the configuration.\<close>

definition config_get :: "config option \<Rightarrow> string \<Rightarrow> string \<Rightarrow> exn + string" where
  "config_get config section k =
     (case config of
        None \<Rightarrow> Inl TypeError
      | Some cfg \<Rightarrow>
          (case map_of cfg section of
             None \<Rightarrow> Inl KeyError
           | Some sec \<Rightarrow> (case map_of sec k of None \<Rightarrow> Inl KeyError | Some v \<Rightarrow> Inr v)))"

section \<open>Transformer (spotify\_transformer.py)\<close>

text \<open>
  Each method builds the table inside a \<open>try\<close> whose handler returns \<open>pd.DataFrame()\<close>.
  The argument is the attribute the method reads (\<open>self.album_data\<close> and so on).
\<close>

definition transform_album_body :: "env \<Rightarrow> pyrec list option \<Rightarrow> exn + dataframe" where
  "transform_album_body env album_data =
     (and_then (drop_duplicates (pd_DataFrame album_data) ''id'') (\<lambda>album_df.
      and_then (getcol album_df ''release_date'') (\<lambda>release_date.
      and_then (to_datetime env release_date) (\<lambda>converted.
      setcol album_df ''release_date'' converted))))"

definition transform_album_data :: "env \<Rightarrow> pyrec list option \<Rightarrow> dataframe" where
  "transform_album_data env album_data =
     (case transform_album_body env album_data of
        Inl e \<Rightarrow> empty_frame
      | Inr album_df \<Rightarrow> album_df)"

definition transform_artist_body :: "env \<Rightarrow> pyrec list option \<Rightarrow> exn + dataframe" where
  "transform_artist_body env artist_data = drop_duplicates (pd_DataFrame artist_data) ''id''"

definition transform_artist_data :: "env \<Rightarrow> pyrec list option \<Rightarrow> dataframe" where
  "transform_artist_data env artist_data =
     (case transform_artist_body env artist_data of
        Inl e \<Rightarrow> empty_frame
      | Inr artist_df \<Rightarrow> artist_df)"

definition transform_song_body :: "env \<Rightarrow> pyrec list option \<Rightarrow> exn + dataframe" where
  "transform_song_body env song_data =
     (and_then (drop_duplicates (pd_DataFrame song_data) ''id'') (\<lambda>song_df.
      and_then (getcol song_df ''added_at'') (\<lambda>added_at.
      and_then (to_datetime env added_at) (\<lambda>converted.
      setcol song_df ''added_at'' converted))))"

definition transform_song_data :: "env \<Rightarrow> pyrec list option \<Rightarrow> dataframe" where
  "transform_song_data env song_data =
     (case transform_song_body env song_data of
        Inl e \<Rightarrow> empty_frame
      | Inr song_df \<Rightarrow> song_df)"

section \<open>Sinks (local\_loader.py, s3\_loader.py)\<close>

text \<open>
  Both loaders hold the three tables, each of which may be \<open>None\<close>; the cloud loader also
  holds the client handle of its connector and the bucket name.
\<close>

record loader =
  album_df :: "dataframe option"
  artist_df :: "dataframe option"
  song_df :: "dataframe option"

record s3_loader = loader +
  s3_client :: "client option"
  bucket_name :: string

text \<open>The local disk: the lines of each file written so far.\<close>

type_synonym filesystem = "(string \<times> string list) list"

text \<open>A bucket upload: bucket, key, body, content type.\<close>

type_synonym upload = "string \<times> string \<times> string list \<times> string"

text \<open>\<open>LoadDataLocal._validate_and_save\<close>\<close>

definition validate_and_save ::
  "env \<Rightarrow> dataframe option \<Rightarrow> string \<Rightarrow> filesystem \<Rightarrow> (exn + unit) \<times> filesystem" where
  "validate_and_save env df filepath fs =
     (case df of
        None \<Rightarrow> (Inl ValueError, fs)
      | Some d \<Rightarrow>
          if df_empty d then (Inl ValueError, fs)
          else if makedirs_ok env filepath then
            (if write_ok env filepath
             then (Inr (), (filepath, to_csv (cell_text env) d) # fs)
             else (Inl IOError, fs))
          else (Inl IOError, fs))"

definition load_album_data :: "env \<Rightarrow> 'a loader_scheme \<Rightarrow> string \<Rightarrow> filesystem \<Rightarrow> (exn + unit) \<times> filesystem" where
  "load_album_data env self filepath fs = validate_and_save env (album_df self) filepath fs"

definition load_artist_data :: "env \<Rightarrow> 'a loader_scheme \<Rightarrow> string \<Rightarrow> filesystem \<Rightarrow> (exn + unit) \<times> filesystem" where
  "load_artist_data env self filepath fs = validate_and_save env (artist_df self) filepath fs"

definition load_song_data :: "env \<Rightarrow> 'a loader_scheme \<Rightarrow> string \<Rightarrow> filesystem \<Rightarrow> (exn + unit) \<times> filesystem" where
  "load_song_data env self filepath fs = validate_and_save env (song_df self) filepath fs"

text \<open>\<open>LoadDataS3._validate_and_upload\<close>: returns the URI of the uploaded object.\<close>

definition validate_and_upload ::
  "env \<Rightarrow> s3_loader \<Rightarrow> dataframe option \<Rightarrow> string \<Rightarrow> upload list \<Rightarrow> (exn + string) \<times> upload list" where
  "validate_and_upload env self df s3_key ups =
     (case df of
        None \<Rightarrow> (Inl ValueError, ups)
      | Some d \<Rightarrow>
          if df_empty d then (Inl ValueError, ups)
          else (let body = to_csv (cell_text env) d in
                case s3_client self of
                  None \<Rightarrow> (Inl AttributeError, ups)
                | Some c \<Rightarrow>
                    if put_ok env c (bucket_name self) s3_key
                    then (Inr (''s3://'' @ bucket_name self @ ''/'' @ s3_key),
                          ups @ [(bucket_name self, s3_key, body, ''text/csv'')])
                    else (Inl IOError, ups)))"

definition load_album_data_to_s3 ::
  "env \<Rightarrow> s3_loader \<Rightarrow> string \<Rightarrow> string \<Rightarrow> upload list \<Rightarrow> (exn + string) \<times> upload list" where
  "load_album_data_to_s3 env self s3_prefix timestamp ups =
     validate_and_upload env self (album_df self) (s3_prefix @ ''/albums/albums_'' @ timestamp @ ''.csv'') ups"

definition load_artist_data_to_s3 ::
  "env \<Rightarrow> s3_loader \<Rightarrow> string \<Rightarrow> string \<Rightarrow> upload list \<Rightarrow> (exn + string) \<times> upload list" where
  "load_artist_data_to_s3 env self s3_prefix timestamp ups =
     validate_and_upload env self (artist_df self) (s3_prefix @ ''/artists/artists_'' @ timestamp @ ''.csv'') ups"

definition load_song_data_to_s3 ::
  "env \<Rightarrow> s3_loader \<Rightarrow> string \<Rightarrow> string \<Rightarrow> upload list \<Rightarrow> (exn + string) \<times> upload list" where
  "load_song_data_to_s3 env self s3_prefix timestamp ups =
     validate_and_upload env self (song_df self) (s3_prefix @ ''/songs/songs_'' @ timestamp @ ''.csv'') ups"

text \<open>The three uploads in the order of the dict literal; the first failure ends the call.\<close>

definition load_all_to_s3 ::
  "env \<Rightarrow> s3_loader \<Rightarrow> string \<Rightarrow> upload list \<Rightarrow> (exn + (string \<times> string) list) \<times> upload list" where
  "load_all_to_s3 env self s3_prefix ups =
     (case timestamps env of (t1, t2, t3) \<Rightarrow>
        (case load_album_data_to_s3 env self s3_prefix t1 ups of
           (Inl e, ups1) \<Rightarrow> (Inl e, ups1)
         | (Inr albums, ups1) \<Rightarrow>
             (case load_artist_data_to_s3 env self s3_prefix t2 ups1 of
                (Inl e, ups2) \<Rightarrow> (Inl e, ups2)
              | (Inr artists, ups2) \<Rightarrow>
                  (case load_song_data_to_s3 env self s3_prefix t3 ups2 of
                     (Inl e, ups3) \<Rightarrow> (Inl e, ups3)
                   | (Inr songs, ups3) \<Rightarrow>
                       (Inr [(''albums'', albums), (''artists'', artists), (''songs'', songs)], ups3)))))"

section \<open>Connectors (spotify\_connector.py, s3\_connector.py, mysql\_connector.py)\<close>

text \<open>
  A connector object has an identity (the number of objects made before it), the
  configuration it was given and its client handle. The process holds the class attribute
  \<open>_instance\<close> of each of the three classes and every connector object made so far.
\<close>

datatype backend = Spotify | S3 | MySql

record conn =
  conn_id :: nat
  conn_kind :: backend
  conn_config :: "config option"
  conn_client :: "client option"

record process =
  spotify_instance :: "conn option"
  s3_instance :: "conn option"
  mysql_instance :: "conn option"
  objects :: "conn list"

definition new_object :: "backend \<Rightarrow> config option \<Rightarrow> client option \<Rightarrow> process \<Rightarrow> conn \<times> process" where
  "new_object b config cl p =
     (let c = \<lparr>conn_id = length (objects p), conn_kind = b, conn_config = config, conn_client = cl\<rparr>
      in (c, p\<lparr>objects := objects p @ [c]\<rparr>))"

text \<open>\<open>connectAPI\<close> logs a failure and leaves the client \<open>None\<close>.\<close>

definition connectAPI :: "env \<Rightarrow> config option \<Rightarrow> client option" where
  "connectAPI env config =
     (case and_then (config_get config ''spotify-auth'' ''CLIENT_ID'') (\<lambda>client_id.
           and_then (config_get config ''spotify-auth'' ''CLIENT_SECRET_KEY'') (\<lambda>client_secret.
           spotipy_client env client_id client_secret)) of
        Inl e \<Rightarrow> None
      | Inr c \<Rightarrow> Some c)"

text \<open>\<open>connect_to_s3\<close> and \<open>connect_to_database\<close> log a failure and raise it again.\<close>

definition connect_to_s3 :: "env \<Rightarrow> config option \<Rightarrow> exn + client" where
  "connect_to_s3 env config =
     (and_then (config_get config ''aws-auth'' ''aws_access_key_id'') (\<lambda>key_id.
      and_then (config_get config ''aws-auth'' ''aws_secret_access_key'') (\<lambda>secret.
      and_then (config_get config ''aws-auth'' ''region_name'') (\<lambda>region.
      boto3_client env key_id secret region))))"

definition connect_to_database :: "env \<Rightarrow> config option \<Rightarrow> exn + client" where
  "connect_to_database env config =
     (and_then (config_get config ''mysql-auth'' ''HOST'') (\<lambda>host.
      and_then (config_get config ''mysql-auth'' ''USER'') (\<lambda>user.
      and_then (config_get config ''mysql-auth'' ''PASSWORD'') (\<lambda>password.
      and_then (config_get config ''mysql-auth'' ''DATABASE'') (\<lambda>database.
      mysql_connect env host user password database)))))"

text \<open>
  The constructors \<open>SpotifyConnection(config)\<close>, \<open>S3Connection(config)\<close> and
  \<open>MySqlConnection(config)\<close>: the guard on the class attribute, then the connection.
  None of them stores the new object in the class attribute.
\<close>

definition SpotifyConnection_init :: "env \<Rightarrow> config option \<Rightarrow> process \<Rightarrow> (exn + conn) \<times> process" where
  "SpotifyConnection_init env config p =
     (case spotify_instance p of
        Some c \<Rightarrow> (Inl Exception, p)
      | None \<Rightarrow> (case new_object Spotify config (connectAPI env config) p of (c, p') \<Rightarrow> (Inr c, p')))"

definition S3Connection_init :: "env \<Rightarrow> config option \<Rightarrow> process \<Rightarrow> (exn + conn) \<times> process" where
  "S3Connection_init env config p =
     (case s3_instance p of
        Some c \<Rightarrow> (Inl Exception, p)
      | None \<Rightarrow>
          (case connect_to_s3 env config of
             Inl e \<Rightarrow> (Inl e, p)
           | Inr cl \<Rightarrow> (case new_object S3 config (Some cl) p of (c, p') \<Rightarrow> (Inr c, p'))))"

definition MySqlConnection_init :: "env \<Rightarrow> config option \<Rightarrow> process \<Rightarrow> (exn + conn) \<times> process" where
  "MySqlConnection_init env config p =
     (case mysql_instance p of
        Some c \<Rightarrow> (Inl Exception, p)
      | None \<Rightarrow>
          (case connect_to_database env config of
             Inl e \<Rightarrow> (Inl e, p)
           | Inr cl \<Rightarrow> (case new_object MySql config (Some cl) p of (c, p') \<Rightarrow> (Inr c, p'))))"

text \<open>The class methods \<open>get_instance\<close>.\<close>

definition SpotifyConnection_get_instance :: "env \<Rightarrow> config option \<Rightarrow> process \<Rightarrow> (exn + conn) \<times> process" where
  "SpotifyConnection_get_instance env config p =
     (case spotify_instance p of
        Some c \<Rightarrow> (Inr c, p)
      | None \<Rightarrow>
          (case SpotifyConnection_init env config p of
             (Inl e, p') \<Rightarrow> (Inl e, p')
           | (Inr c, p') \<Rightarrow> (Inr c, p'\<lparr>spotify_instance := Some c\<rparr>)))"

definition S3Connection_get_instance :: "env \<Rightarrow> config option \<Rightarrow> process \<Rightarrow> (exn + conn) \<times> process" where
  "S3Connection_get_instance env config p =
     (case s3_instance p of
        Some c \<Rightarrow> (Inr c, p)
      | None \<Rightarrow>
          (case S3Connection_init env config p of
             (Inl e, p') \<Rightarrow> (Inl e, p')
           | (Inr c, p') \<Rightarrow> (Inr c, p'\<lparr>s3_instance := Some c\<rparr>)))"

definition MySqlConnection_get_instance :: "env \<Rightarrow> config option \<Rightarrow> process \<Rightarrow> (exn + conn) \<times> process" where
  "MySqlConnection_get_instance env config p =
     (case mysql_instance p of
        Some c \<Rightarrow> (Inr c, p)
      | None \<Rightarrow>
          (case MySqlConnection_init env config p of
             (Inl e, p') \<Rightarrow> (Inl e, p')
           | (Inr c, p') \<Rightarrow> (Inr c, p'\<lparr>mysql_instance := Some c\<rparr>)))"

text \<open>\<open>SpotifyConnection.get_playlist_track\<close>\<close>

definition get_playlist_track :: "env \<Rightarrow> conn \<Rightarrow> string \<Rightarrow> exn + json" where
  "get_playlist_track env self playlist_id =
     (case conn_client self of
        None \<Rightarrow> Inl Exception
      | Some cl \<Rightarrow> playlist_tracks env cl playlist_id)"

text \<open>
  A client program is a sequence of requests for connectors, by \<open>get_instance\<close> or by the
  constructor; \<open>run\<close> performs them in order and collects what each one returned.
\<close>

datatype request = GetInstance backend "config option" | Construct backend "config option"

fun target :: "request \<Rightarrow> backend" where
  "target (GetInstance b config) = b"
| "target (Construct b config) = b"

fun perform :: "env \<Rightarrow> request \<Rightarrow> process \<Rightarrow> (exn + conn) \<times> process" where
  "perform env (GetInstance Spotify config) p = SpotifyConnection_get_instance env config p"
| "perform env (GetInstance S3 config) p = S3Connection_get_instance env config p"
| "perform env (GetInstance MySql config) p = MySqlConnection_get_instance env config p"
| "perform env (Construct Spotify config) p = SpotifyConnection_init env config p"
| "perform env (Construct S3 config) p = S3Connection_init env config p"
| "perform env (Construct MySql config) p = MySqlConnection_init env config p"

fun run :: "env \<Rightarrow> request list \<Rightarrow> process \<Rightarrow> (exn + conn) list \<times> process" where
  "run env [] p = ([], p)"
| "run env (r # rs) p =
     (case perform env r p of (x, p') \<Rightarrow> (case run env rs p' of (xs, p'') \<Rightarrow> (x # xs, p'')))"

definition instance_slot :: "process \<Rightarrow> backend \<Rightarrow> conn option" where
  "instance_slot p b
        = (case b of Spotify \<Rightarrow> spotify_instance p | S3 \<Rightarrow> s3_instance p | MySql \<Rightarrow> mysql_instance p)"

definition live :: "process \<Rightarrow> backend \<Rightarrow> conn list" where
  "live p b = filter (\<lambda>c. conn_kind c = b) (objects p)"

definition fresh_process :: process where
  "fresh_process = \<lparr>spotify_instance = None, s3_instance = None, mysql_instance = None, objects = []\<rparr>"

section \<open>Orchestrator (main.py)\<close>

text \<open>
  The stages of a run are recorded as they are entered; the record is not part of the
  program and is there to state which stages a run reaches.
\<close>

datatype stage = Fetch | Extract | Transform | Route | Write | Done

record world =
  trace :: "stage list"
  proc :: process
  files :: filesystem
  uploads :: "upload list"

definition enter :: "stage \<Rightarrow> world \<Rightarrow> world" where
  "enter s w = w\<lparr>trace := trace w @ [s]\<rparr>"

text \<open>The branch \<open>data_load == "s3"\<close>.\<close>

definition main_s3 :: "env \<Rightarrow> dataframe \<Rightarrow> dataframe \<Rightarrow> dataframe \<Rightarrow> world \<Rightarrow> (exn + unit) \<times> world" where
  "main_s3 env album artist song w =
     (case S3Connection_get_instance env (Some (config_file env)) (proc w) of
        (Inl e, p) \<Rightarrow> (Inl e, w\<lparr>proc := p\<rparr>)
      | (Inr s3_conn, p) \<Rightarrow>
          (case config_get (Some (config_file env)) ''aws-bucket'' ''bucket_name'' of
             Inl e \<Rightarrow> (Inl e, w\<lparr>proc := p\<rparr>)
           | Inr bucket \<Rightarrow>
               (let s3_loader = \<lparr>album_df = Some album, artist_df = Some artist, song_df = Some song,
                                 s3_client = conn_client s3_conn, bucket_name = bucket\<rparr>;
                    w' = enter Write (w\<lparr>proc := p\<rparr>)
                in case load_all_to_s3 env s3_loader ''processed-data/spotify'' (uploads w') of
                     (Inl e, ups) \<Rightarrow> (Inl e, w'\<lparr>uploads := ups\<rparr>)
                   | (Inr uris, ups) \<Rightarrow> (Inr (), enter Done (w'\<lparr>uploads := ups\<rparr>)))))"

text \<open>The \<open>else\<close> branch: three local files named after the playlist.\<close>

definition main_local ::
  "env \<Rightarrow> string \<Rightarrow> dataframe \<Rightarrow> dataframe \<Rightarrow> dataframe \<Rightarrow> world \<Rightarrow> (exn + unit) \<times> world" where
  "main_local env playlist_id album artist song w =
     (let local_loader = \<lparr>album_df = Some album, artist_df = Some artist, song_df = Some song\<rparr>;
          w' = enter Write w
      in case load_album_data env local_loader (''data/album_data_'' @ playlist_id @ ''.csv'') (files w') of
           (Inl e, fs1) \<Rightarrow> (Inl e, w'\<lparr>files := fs1\<rparr>)
         | (Inr u1, fs1) \<Rightarrow>
             (case load_artist_data env local_loader (''data/artist_data_'' @ playlist_id @ ''.csv'') fs1 of
                (Inl e, fs2) \<Rightarrow> (Inl e, w'\<lparr>files := fs2\<rparr>)
              | (Inr u2, fs2) \<Rightarrow>
                  (case load_song_data env local_loader (''data/song_data_'' @ playlist_id @ ''.csv'') fs2 of
                     (Inl e, fs3) \<Rightarrow> (Inl e, w'\<lparr>files := fs3\<rparr>)
                   | (Inr u3, fs3) \<Rightarrow> (Inr (), enter Done (w'\<lparr>files := fs3\<rparr>)))))"

text \<open>
  The connection and the fetch at the head of \<open>main\<close>: the playlist identifier and the
  playlist document, or the exception that ended the run.
\<close>

definition main_fetch :: "env \<Rightarrow> world \<Rightarrow> (exn + string \<times> json) \<times> world" where
  "main_fetch env w =
     (case SpotifyConnection_get_instance env (Some (config_file env)) (proc w) of
        (Inl e, p) \<Rightarrow> (Inl e, w\<lparr>proc := p\<rparr>)
      | (Inr api_conn, p) \<Rightarrow>
          (and_then (config_get (Some (config_file env)) ''playlist-id'' ''PLAYLIST_ID'') (\<lambda>playlist_id.
           and_then (get_playlist_track env api_conn playlist_id) (\<lambda>playlist_data.
           Inr (playlist_id, playlist_data))),
           w\<lparr>proc := p\<rparr>))"

text \<open>
  \<open>main(data_load)\<close>. The third extraction is the call \<open>data_extractor.extract_song_data()\<close>,
  with no argument.
\<close>

definition main :: "env \<Rightarrow> string \<Rightarrow> world \<Rightarrow> (exn + unit) \<times> world" where
  "main env data_load w0 =
     (case main_fetch env (enter Fetch w0) of
        (Inl e, w1) \<Rightarrow> (Inl e, w1)
      | (Inr (playlist_id, playlist_data), w1) \<Rightarrow>
          (let w2 = enter Extract w1;
               album_data = extract_album_data playlist_data;
               artist_data = extract_artist_data playlist_data
           in case call_extract_song_data playlist_data [] of
                Inl e \<Rightarrow> (Inl e, w2)
              | Inr song_data \<Rightarrow>
                  (let w3 = enter Transform w2;
                       album = transform_album_data env album_data;
                       artist = transform_artist_data env artist_data;
                       song = transform_song_data env song_data;
                       w4 = enter Route w3
                   in if data_load = ''s3'' then main_s3 env album artist song w4
                      else main_local env playlist_id album artist song w4)))"

section \<open>Example documents and collaborators\<close>

definition mk_artist :: "string \<Rightarrow> json" where
  "mk_artist i =
     JObj [(''id'', JStr i), (''name'', JStr (''artist '' @ i)),
           (''external_urls'', JObj [(''spotify'', JStr (''https://open.spotify.com/artist/'' @ i))])]"

definition mk_album :: "string \<Rightarrow> json list \<Rightarrow> json" where
  "mk_album i album_artists =
     JObj [(''id'', JStr i), (''name'', JStr (''album '' @ i)), (''release_date'', JStr ''2020-01-31''),
           (''total_tracks'', JNum 12),
           (''external_urls'', JObj [(''spotify'', JStr (''https://open.spotify.com/album/'' @ i))]),
           (''artists'', JArr album_artists)]"

definition mk_item :: "string \<Rightarrow> json \<Rightarrow> json list \<Rightarrow> json" where
  "mk_item i album track_artists =
     JObj [(''added_at'', JStr ''2024-05-01T10:00:00Z''),
           (''track'', JObj [(''id'', JStr i), (''name'', JStr (''song '' @ i)), (''duration_ms'', JNum 1000),
                             (''popularity'', JNum 50),
                             (''external_urls'', JObj [(''spotify'', JStr (''https://open.spotify.com/track/'' @ i))]),
                             (''album'', album), (''artists'', JArr track_artists)])]"

definition mk_doc :: "json list \<Rightarrow> json" where
  "mk_doc its = JObj [(''items'', JArr its)]"

text \<open>A well-formed item, an item with an absent track, an item whose track has no album,
  no artists and no external URL, and an item whose album lists no artist.\<close>

definition item_A :: json where
  "item_A = mk_item ''tA'' (mk_album ''X'' [mk_artist ''a1'']) [mk_artist ''a1'']"

definition item_B :: json where
  "item_B = JObj [(''added_at'', JStr ''2024-05-02T10:00:00Z''), (''track'', JNull)]"

definition item_bad :: json where
  "item_bad = JObj [(''added_at'', JStr ''2024-05-03T10:00:00Z''),
                    (''track'', JObj [(''id'', JStr ''t0''), (''name'', JStr ''song t0'')])]"

definition item_noart :: json where
  "item_noart = mk_item ''tN'' (mk_album ''Y'' []) [mk_artist ''a2'']"

text \<open>Collaborators that always succeed: every date parses to the same instant, a string
  cell is written as it is, the API answers with the document of \<open>item_A\<close>.\<close>

definition plain_text :: "cell \<Rightarrow> string" where
  "plain_text c = (case c of Val (JStr s) \<Rightarrow> s | _ \<Rightarrow> [])"

definition ex_config :: config where
  "ex_config =
     [(''spotify-auth'', [(''CLIENT_ID'', ''id''), (''CLIENT_SECRET_KEY'', ''secret'')]),
      (''playlist-id'', [(''PLAYLIST_ID'', ''p1'')]),
      (''aws-auth'', [(''aws_access_key_id'', ''k''), (''aws_secret_access_key'', ''s''), (''region_name'', ''r'')]),
      (''aws-bucket'', [(''bucket_name'', ''bucket'')]),
      (''mysql-auth'', [(''HOST'', ''h''), (''USER'', ''u''), (''PASSWORD'', ''pw''), (''DATABASE'', ''db'')])]"

definition ex_env :: env where
  "ex_env =
     \<lparr>to_datetime = (\<lambda>cs. Inr (map (\<lambda>c. Timestamp 0) cs)),
      cell_text = plain_text,
      makedirs_ok = (\<lambda>f. True),
      write_ok = (\<lambda>f. True),
      put_ok = (\<lambda>c b k. True),
      timestamps = (''2024-05-01_10-00-00'', ''2024-05-01_10-00-01'', ''2024-05-01_10-00-02''),
      config_file = ex_config,
      spotipy_client = (\<lambda>i s. Inr 1),
      boto3_client = (\<lambda>k s r. Inr 2),
      mysql_connect = (\<lambda>h u pw d. Inr 3),
      playlist_tracks = (\<lambda>c pl. Inr (mk_doc [item_A]))\<rparr>"

definition ex_world :: world where
  "ex_world = \<lparr>trace = [], proc = fresh_process, files = [], uploads = []\<rparr>"

text \<open>The same collaborators with a date parser that raises.\<close>

definition failing_dates :: env where
  "failing_dates = ex_env\<lparr>to_datetime := (\<lambda>cs. Inl ValueError)\<rparr>"

text \<open>
  What a request for a backend returns once the class attribute of that backend holds the
  connector \<open>c\<close>: \<open>get_instance\<close> hands out \<open>c\<close>, the constructor raises.
\<close>

fun answer_when_registered :: "conn \<Rightarrow> request \<Rightarrow> exn + conn" where
  "answer_when_registered c (GetInstance b config) = Inr c"
| "answer_when_registered c (Construct b config) = Inl Exception"

text \<open>
  Requests made through \<open>get_instance\<close>, and the connectors of a backend that the class
  attribute accounts for: the stored one, if any.
\<close>

fun by_get_instance :: "request \<Rightarrow> bool" where
  "by_get_instance (GetInstance b config) = True"
| "by_get_instance (Construct b config) = False"

definition registered :: "process \<Rightarrow> backend \<Rightarrow> conn list" where
  "registered p b = (case instance_slot p b of None \<Rightarrow> [] | Some c \<Rightarrow> [c])"

text \<open>Two storage connectors, and a process in which \<open>get_instance\<close> has made the first.\<close>

definition s3_conn0 :: conn where
  "s3_conn0 = \<lparr>conn_id = 0, conn_kind = S3, conn_config = Some ex_config, conn_client = Some 2\<rparr>"

definition s3_conn1 :: conn where
  "s3_conn1 = \<lparr>conn_id = 1, conn_kind = S3, conn_config = Some ex_config, conn_client = Some 2\<rparr>"

definition registered_process :: process where
  "registered_process = \<lparr>spotify_instance = None, s3_instance = Some s3_conn0, mysql_instance = None,
                          objects = [s3_conn0]\<rparr>"





text \<open>A cloud loader with a client and a bucket, and the tables of the example document.\<close>

definition ex_s3_loader :: s3_loader where
  "ex_s3_loader = \<lparr>album_df = None, artist_df = None, song_df = None, s3_client = Some 2, bucket_name = ''bucket''\<rparr>"

definition ex_album_table :: dataframe where
  "ex_album_table = transform_album_data ex_env (extract_album_data (mk_doc [item_A]))"

definition ex_artist_table :: dataframe where
  "ex_artist_table = transform_artist_data ex_env (extract_artist_data (mk_doc [item_A]))"

definition ex_song_table :: dataframe where
  "ex_song_table = transform_song_data ex_env (extract_song_data (mk_doc [item_A]) JNull)"

section \<open>Unfolding rules for the examples\<close>

lemmas fixture_defs = mk_artist_def mk_album_def mk_item_def mk_doc_def item_A_def item_B_def
  item_bad_def item_noart_def
lemmas extract_defs = extract_album_data_def extract_album_body_def album_dict_def and_then_def
  extract_artist_data_def extract_artist_body_def artist_dict_def
  extract_song_data_def extract_song_body_def song_dict_def

section \<open>Items with an absent track\<close>

lemma album_loop_skip:
  "getitem item ''track'' = Inr JNull \<Longrightarrow> album_loop (xs @ item # ys) acc = album_loop (xs @ ys) acc"
  by (induction xs arbitrary: acc) (auto split: sum.splits)

lemma artist_loop_skip:
  "getitem item ''track'' = Inr JNull \<Longrightarrow> artist_loop (xs @ item # ys) acc = artist_loop (xs @ ys) acc"
  by (induction xs arbitrary: acc) (auto split: sum.splits)

lemma song_loop_skip:
  "getitem item ''track'' = Inr JNull \<Longrightarrow> song_loop (xs @ item # ys) acc = song_loop (xs @ ys) acc"
  by (induction xs arbitrary: acc) (auto split: sum.splits)

text \<open>
  Claim C5. An item whose track is \<open>None\<close> contributes nothing to any of the three
  extracted lists and does not end the batch: each extraction method returns, for a document
  that holds such an item anywhere among its items, exactly what it returns for the document
  without that item.
\<close>

theorem absent_track_contributes_nothing:
  assumes "getitem item ''track'' = Inr JNull"
    and "getitem doc ''items'' = Inr (JArr (xs @ item # ys))"
    and "getitem doc' ''items'' = Inr (JArr (xs @ ys))"
  shows "extract_album_data doc = extract_album_data doc'
       \<and> extract_artist_data doc = extract_artist_data doc'
       \<and> extract_song_data doc arg = extract_song_data doc' arg'"
  using assms
  by (simp add: extract_album_data_def extract_album_body_def extract_artist_data_def
      extract_artist_body_def extract_song_data_def extract_song_body_def and_then_def
      album_loop_skip artist_loop_skip song_loop_skip)

text \<open>
  The hypotheses of C5 at the document \<open>[item_A, item_B, item_A]\<close>, whose middle item has
  no track: two songs are extracted, and the document of \<open>item_B\<close> alone gives three empty
  lists.
\<close>

theorem absent_track_contributes_nothing_witness:
  "getitem item_B ''track'' = Inr JNull
   \<and> getitem (mk_doc [item_A, item_B, item_A]) ''items'' = Inr (JArr ([item_A] @ item_B # [item_A]))
   \<and> getitem (mk_doc [item_A, item_A]) ''items'' = Inr (JArr ([item_A] @ [item_A]))
   \<and> extract_album_data (mk_doc [item_A, item_B, item_A]) = extract_album_data (mk_doc [item_A, item_A])
   \<and> extract_artist_data (mk_doc [item_A, item_B, item_A]) = extract_artist_data (mk_doc [item_A, item_A])
   \<and> extract_song_data (mk_doc [item_A, item_B, item_A]) JNull = extract_song_data (mk_doc [item_A, item_A]) JNull
   \<and> extract_album_data (mk_doc [item_B]) = Some []
   \<and> extract_artist_data (mk_doc [item_B]) = Some []
   \<and> extract_song_data (mk_doc [item_B]) JNull = Some []
   \<and> length (the (extract_song_data (mk_doc [item_A, item_B, item_A]) JNull)) = 2"
proof -
  have h1: "getitem item_B ''track'' = Inr JNull" by (simp add: item_B_def)
  have h2: "getitem (mk_doc [item_A, item_B, item_A]) ''items'' = Inr (JArr ([item_A] @ item_B # [item_A]))"
    by (simp add: mk_doc_def)
  have h3: "getitem (mk_doc [item_A, item_A]) ''items'' = Inr (JArr ([item_A] @ [item_A]))"
    by (simp add: mk_doc_def)
  have h4: "extract_album_data (mk_doc [item_B]) = Some []"
    "extract_artist_data (mk_doc [item_B]) = Some []"
    "extract_song_data (mk_doc [item_B]) JNull = Some []"
    by (simp_all add: fixture_defs extract_defs)
  have h5: "length (the (extract_song_data (mk_doc [item_A, item_A]) JNull)) = 2"
    by (simp add: fixture_defs extract_defs)
  from absent_track_contributes_nothing [OF h1 h2 h3, of JNull JNull] h1 h2 h3 h4 h5
  show ?thesis by simp
qed

section \<open>One malformed item\<close>

text \<open>
  Claim C1. The claim is that a malformed item is skipped and the records of the other
  items are still returned. The code does otherwise: for the document \<open>[item_bad, item_A]\<close>,
  whose first item has a track without album, artists and external URL, each of the three
  extraction methods returns \<open>None\<close>, although \<open>item_A\<close> alone yields one record in each.
\<close>

theorem malformed_item_aborts_batch:
  "extract_album_data (mk_doc [item_bad, item_A]) = None
   \<and> extract_artist_data (mk_doc [item_bad, item_A]) = None
   \<and> extract_song_data (mk_doc [item_bad, item_A]) JNull = None
   \<and> extract_album_data (mk_doc [item_A]) =
       Some [[(''id'', JStr ''X''), (''name'', JStr ''album X''), (''release_date'', JStr ''2020-01-31''),
              (''total_tracks'', JNum 12), (''url'', JStr ''https://open.spotify.com/album/X'')]]
   \<and> extract_artist_data (mk_doc [item_A]) =
       Some [[(''id'', JStr ''a1''), (''name'', JStr ''artist a1''),
              (''url'', JStr ''https://open.spotify.com/artist/a1'')]]
   \<and> extract_song_data (mk_doc [item_A]) JNull =
       Some [[(''id'', JStr ''tA''), (''name'', JStr ''song tA''), (''added_at'', JStr ''2024-05-01T10:00:00Z''),
              (''duration_ms'', JNum 1000), (''popularity'', JNum 50),
              (''url'', JStr ''https://open.spotify.com/track/tA''),
              (''album_id'', JStr ''X''), (''artist_ids'', JStr ''a1'')]]"
  by (simp add: fixture_defs extract_defs)

text \<open>
  Claim C2. The claim is that an item whose album lists no artist still gives a song
  record and leaves the other items' records in place. The code does otherwise: with
  \<open>item_noart\<close> in the document, before or after the well-formed \<open>item_A\<close>,
  \<open>extract_song_data\<close> returns \<open>None\<close>.
\<close>

theorem empty_album_artists_aborts_songs:
  "path item_noart [''track'', ''album'', ''artists''] = Inr (JArr [])
   \<and> extract_song_data (mk_doc [item_noart, item_A]) JNull = None
   \<and> extract_song_data (mk_doc [item_A, item_noart]) JNull = None
   \<and> extract_song_data (mk_doc [item_A]) JNull \<noteq> None"
  by (simp add: fixture_defs extract_defs)

section \<open>The run of the orchestrator\<close>

text \<open>
  Claim C3. The claim is that \<open>main\<close> goes through fetch, the three extractions, the
  transforms, the routing and the write. The code does otherwise: whenever the fetch has
  delivered a document, the run ends in the extract stage with the \<open>TypeError\<close> of the call
  \<open>extract_song_data()\<close>, whatever the document and the mode.
\<close>

theorem main_stops_in_extract:
  assumes "main_fetch env (enter Fetch w) = (Inr (playlist_id, playlist_data), w1)"
  shows "main env data_load w = (Inl TypeError, enter Extract w1)"
  using assms by (simp add: main_def call_extract_song_data_def Let_def)

text \<open>No run of \<open>main\<close> succeeds, writes a file or uploads an object.\<close>

lemma main_never_transforms:
  "fst (main env data_load w) \<noteq> Inr ()
   \<and> files (snd (main env data_load w)) = files w
   \<and> uploads (snd (main env data_load w)) = uploads w
   \<and> (trace (snd (main env data_load w)) = trace w @ [Fetch]
      \<or> trace (snd (main env data_load w)) = trace w @ [Fetch, Extract])"
  by (auto simp add: main_def call_extract_song_data_def Let_def main_fetch_def enter_def
       SpotifyConnection_get_instance_def SpotifyConnection_init_def new_object_def
      split: prod.splits sum.splits option.splits)

text \<open>The hypothesis of C3 with the example collaborators, in both modes.\<close>

theorem main_stops_in_extract_witness:
  "main_fetch ex_env (enter Fetch ex_world) =
     (Inr (''p1'', mk_doc [item_A]),
      \<lparr>trace = [Fetch],
       proc = \<lparr>spotify_instance = Some \<lparr>conn_id = 0, conn_kind = Spotify, conn_config
             = Some ex_config, conn_client = Some 1\<rparr>,
               s3_instance = None, mysql_instance = None,
               objects = [\<lparr>conn_id = 0, conn_kind = Spotify, conn_config = Some ex_config,
                     conn_client = Some 1\<rparr>]\<rparr>,
       files = [], uploads = []\<rparr>)
   \<and> fst (main ex_env ''local'' ex_world) = Inl TypeError
   \<and> fst (main ex_env ''s3'' ex_world) = Inl TypeError
   \<and> trace (snd (main ex_env ''local'' ex_world)) = [Fetch, Extract]
   \<and> trace (snd (main ex_env ''s3'' ex_world)) = [Fetch, Extract]"
proof -
  have h: "main_fetch ex_env (enter Fetch ex_world) =
     (Inr (''p1'', mk_doc [item_A]),
      \<lparr>trace = [Fetch],
       proc = \<lparr>spotify_instance = Some \<lparr>conn_id = 0, conn_kind = Spotify, conn_config
             = Some ex_config, conn_client = Some 1\<rparr>,
               s3_instance = None, mysql_instance = None,
               objects = [\<lparr>conn_id = 0, conn_kind = Spotify, conn_config = Some ex_config,
                     conn_client = Some 1\<rparr>]\<rparr>,
       files = [], uploads = []\<rparr>)"
    by (simp add: main_fetch_def ex_env_def ex_world_def enter_def fresh_process_def
        SpotifyConnection_get_instance_def SpotifyConnection_init_def new_object_def connectAPI_def
        config_get_def ex_config_def and_then_def get_playlist_track_def Let_def)
  from main_stops_in_extract [OF h, of "''local''"] main_stops_in_extract [OF h, of "''s3''"] h
  show ?thesis by (simp add: enter_def)
qed

section \<open>The precondition of the sinks\<close>

text \<open>
  Claim C6. When the table handed to a sink is \<open>None\<close> or empty, the local sink and the
  cloud sink both raise \<open>ValueError\<close>, whatever the destination, and the file system and the
  bucket are left as they were: nothing is written or uploaded.
\<close>

theorem sinks_reject_missing_table:
  assumes "(case df of None \<Rightarrow> True | Some d \<Rightarrow> df_empty d)"
  shows "validate_and_save env df filepath fs = (Inl ValueError, fs)
       \<and> validate_and_upload env self df s3_key ups = (Inl ValueError, ups)"
  using assms
  by (cases df) (simp_all add: validate_and_save_def validate_and_upload_def)

text \<open>The hypothesis of C6 at a table with a column and no row, and at \<open>None\<close>.\<close>

theorem sinks_reject_missing_table_witness:
  "(case Some \<lparr>columns = [''id''], rows = []\<rparr> of None \<Rightarrow> True | Some d \<Rightarrow> df_empty d)
   \<and> (case (None :: dataframe option) of None \<Rightarrow> True | Some d \<Rightarrow> df_empty d)
   \<and> validate_and_save ex_env (Some \<lparr>columns = [''id''], rows
         = []\<rparr>) ''data/album_data_p1.csv'' [] = (Inl ValueError, [])
   \<and> validate_and_save ex_env None ''data/album_data_p1.csv'' [] = (Inl ValueError, [])
   \<and> validate_and_upload ex_env
        \<lparr>album_df = None, artist_df = None, song_df = None, s3_client = Some 2, bucket_name = ''bucket''\<rparr>
        (Some \<lparr>columns = [''id''], rows
              = []\<rparr>) ''processed-data/spotify/albums/albums_t.csv'' [] = (Inl ValueError, [])
   \<and> validate_and_upload ex_env
        \<lparr>album_df = None, artist_df = None, song_df = None, s3_client = Some 2, bucket_name = ''bucket''\<rparr>
        None ''processed-data/spotify/albums/albums_t.csv'' [] = (Inl ValueError, [])"
proof -
  have h1: "(case Some \<lparr>columns = [''id''], rows
        = []\<rparr> of None \<Rightarrow> True | Some d \<Rightarrow> df_empty d)"
    by (simp add: df_empty_def)
  have h2: "(case (None :: dataframe option) of None \<Rightarrow> True | Some d \<Rightarrow> df_empty d)"
    by simp
  from sinks_reject_missing_table [OF h1] sinks_reject_missing_table [OF h2] h1 h2
  show ?thesis by simp
qed

section \<open>Transforms of missing and malformed input\<close>

lemma pd_DataFrame_None: "pd_DataFrame None = empty_frame"
  by (simp add: pd_DataFrame_def)

lemma pd_DataFrame_Nil: "pd_DataFrame (Some []) = empty_frame"
  by (simp add: pd_DataFrame_def record_keys_def empty_frame_def)

lemma drop_duplicates_empty_frame: "drop_duplicates empty_frame c = Inr empty_frame"
  by (simp add: drop_duplicates_def df_empty_def empty_frame_def)

lemma getcol_empty_frame: "getcol empty_frame c = Inl KeyError"
  by (simp add: getcol_def empty_frame_def)

lemma transform_no_records:
  "data = None \<or> data = Some [] \<Longrightarrow>
     transform_album_data env data = empty_frame
   \<and> transform_artist_data env data = empty_frame
   \<and> transform_song_data env data = empty_frame"
  by (auto simp add: transform_album_data_def transform_album_body_def transform_artist_data_def
      transform_artist_body_def transform_song_data_def transform_song_body_def and_then_def
      pd_DataFrame_None pd_DataFrame_Nil drop_duplicates_empty_frame getcol_empty_frame)

text \<open>
  Claim C10. Given \<open>None\<close> in place of a list of raw records, each transform method returns
  the empty table and raises nothing; the failure shows only at the sink, local or cloud,
  which rejects that table with \<open>ValueError\<close> and writes nothing.
\<close>

theorem transform_of_None_is_empty:
  "transform_album_data env None = empty_frame
   \<and> transform_artist_data env None = empty_frame
   \<and> transform_song_data env None = empty_frame
   \<and> df_empty empty_frame
   \<and> validate_and_save env (Some (transform_album_data env None)) filepath fs = (Inl ValueError, fs)
   \<and> validate_and_save env (Some (transform_artist_data env None)) filepath fs = (Inl ValueError, fs)
   \<and> validate_and_save env (Some (transform_song_data env None)) filepath fs = (Inl ValueError, fs)
   \<and> validate_and_upload env self (Some (transform_album_data env None)) s3_key ups = (Inl ValueError, ups)
   \<and> validate_and_upload env self (Some (transform_artist_data env None)) s3_key ups = (Inl ValueError, ups)
   \<and> validate_and_upload env self (Some (transform_song_data env None)) s3_key ups = (Inl ValueError, ups)"
proof -
  have e: "df_empty empty_frame" by (simp add: df_empty_def empty_frame_def)
  have t: "transform_album_data env None = empty_frame" "transform_artist_data env None = empty_frame"
    "transform_song_data env None = empty_frame"
    using transform_no_records [of None env] by simp_all
  show ?thesis
    by (simp add: t e validate_and_save_def validate_and_upload_def)
qed

text \<open>
  Claim C7. When the list of raw records is empty, or when a step of the method (building
  the table, removing duplicates, converting the dates) raises, each transform method
  returns the empty table and the exception does not reach the caller.
\<close>

theorem transform_failure_gives_empty_table:
  "(album_data = Some [] \<or> transform_album_body env album_data = Inl e1
      \<longrightarrow> transform_album_data env album_data = empty_frame)
   \<and> (artist_data = Some [] \<or> transform_artist_body env artist_data = Inl e2
      \<longrightarrow> transform_artist_data env artist_data = empty_frame)
   \<and> (song_data = Some [] \<or> transform_song_body env song_data = Inl e3
      \<longrightarrow> transform_song_data env song_data = empty_frame)"
proof -
  have a: "transform_album_data env (Some []) = empty_frame"
    "transform_artist_data env (Some []) = empty_frame"
    "transform_song_data env (Some []) = empty_frame"
    using transform_no_records [of "Some []" env] by simp_all
  have b: "transform_album_body env album_data = Inl e1 \<Longrightarrow> transform_album_data env album_data = empty_frame"
    "transform_artist_body env artist_data = Inl e2 \<Longrightarrow> transform_artist_data env artist_data = empty_frame"
    "transform_song_body env song_data = Inl e3 \<Longrightarrow> transform_song_data env song_data = empty_frame"
    by (simp_all add: transform_album_data_def transform_artist_data_def transform_song_data_def)
  from a b show ?thesis by blast
qed

lemmas table_defs = pd_DataFrame_def record_keys_def first_seen.simps row_of_def table_cell_def
  infer_cell_def float_column_def field_of_def drop_duplicates_def df_empty_def cell_of_def getcol_def
  setcol_def set_cell_def same_key_def and_then_def Let_def
lemmas transform_defs = transform_album_data_def transform_album_body_def transform_artist_data_def
  transform_artist_body_def transform_song_data_def transform_song_body_def

text \<open>
  The hypotheses of C7: a date conversion that raises (albums), records without an \<open>id\<close>
  (artists) and an empty list (songs).
\<close>

theorem transform_failure_gives_empty_table_witness:
  "transform_album_body failing_dates
      (Some [[(''id'', JStr ''X''), (''name'', JStr ''album X''), (''release_date'', JStr ''2020-01-31''),
              (''total_tracks'', JNum 12), (''url'', JStr ''u'')]]) = Inl ValueError
   \<and> transform_artist_body failing_dates (Some [[(''name'', JStr ''artist a1''), (''url'', JStr ''u'')]]) = Inl KeyError
   \<and> transform_album_data failing_dates
      (Some [[(''id'', JStr ''X''), (''name'', JStr ''album X''), (''release_date'', JStr ''2020-01-31''),
              (''total_tracks'', JNum 12), (''url'', JStr ''u'')]]) = empty_frame
   \<and> transform_artist_data failing_dates (Some [[(''name'', JStr ''artist a1''), (''url'', JStr ''u'')]]) = empty_frame
   \<and> transform_song_data failing_dates (Some []) = empty_frame"
proof -
  have h1: "transform_album_body failing_dates
      (Some [[(''id'', JStr ''X''), (''name'', JStr ''album X''), (''release_date'', JStr ''2020-01-31''),
              (''total_tracks'', JNum 12), (''url'', JStr ''u'')]]) = Inl ValueError"
    by (simp add: transform_defs table_defs failing_dates_def ex_env_def)
  have h2: "transform_artist_body failing_dates (Some [[(''name'', JStr ''artist a1''), (''url'', JStr ''u'')]]) = Inl KeyError"
    by (simp add: transform_defs table_defs failing_dates_def ex_env_def)
  from transform_failure_gives_empty_table
         [of "Some [[(''id'', JStr ''X''), (''name'', JStr ''album X''), (''release_date'', JStr ''2020-01-31''),
                     (''total_tracks'', JNum 12), (''url'', JStr ''u'')]]" failing_dates ValueError
             "Some [[(''name'', JStr ''artist a1''), (''url'', JStr ''u'')]]" KeyError "Some []" ValueError]
       h1 h2
  show ?thesis by simp
qed

section \<open>One connector per backend\<close>

lemmas connector_defs = SpotifyConnection_init_def S3Connection_init_def MySqlConnection_init_def
  SpotifyConnection_get_instance_def S3Connection_get_instance_def MySqlConnection_get_instance_def
  new_object_def instance_slot_def live_def

lemma perform_registered:
  assumes "instance_slot p b = Some c" and "perform env r p = (x, p')"
  shows "instance_slot p' b = Some c \<and> live p' b = live p b
       \<and> (target r = b \<longrightarrow> x = answer_when_registered c r)"
proof (cases r)
  case (GetInstance b' config)
  with assms show ?thesis
    by (cases b; cases b')
       (auto simp add: connector_defs Let_def split: option.splits sum.splits prod.splits)
next
  case (Construct b' config)
  with assms show ?thesis
    by (cases b; cases b')
       (auto simp add: connector_defs Let_def split: option.splits sum.splits prod.splits)
qed

lemma run_registered:
  assumes "instance_slot p b = Some c" and "run env rs p = (xs, p')"
  shows "instance_slot p' b = Some c \<and> live p' b = live p b
       \<and> list_all2 (\<lambda>r x. target r = b \<longrightarrow> x = answer_when_registered c r) rs xs"
  using assms
proof (induction rs arbitrary: p xs p')
  case Nil
  then show ?case by simp
next
  case (Cons r rs)
  obtain x p1 where s1: "perform env r p = (x, p1)" by (cases "perform env r p")
  obtain ys p2 where s2: "run env rs p1 = (ys, p2)" by (cases "run env rs p1")
  from Cons.prems(2) s1 s2 have eq: "xs = x # ys" "p' = p2" by simp_all
  from perform_registered [OF Cons.prems(1) s1]
  have a: "instance_slot p1 b = Some c" "live p1 b = live p b"
    "target r = b \<longrightarrow> x = answer_when_registered c r" by simp_all
  from Cons.IH [OF a(1) s2] a eq show ?case by simp
qed

lemma get_instance_stores:
  assumes "perform env (GetInstance b config) p = (Inr c, p1)"
  shows "instance_slot p1 b = Some c"
  using assms
  by (cases b) (auto simp add: connector_defs Let_def split: option.splits sum.splits prod.splits)

lemma perform_get_only:
  assumes "by_get_instance r" and "live p b = registered p b" and "perform env r p = (x, p1)"
  shows "live p1 b = registered p1 b
       \<and> (target r = b \<longrightarrow> (case x of Inl e \<Rightarrow> True | Inr c \<Rightarrow> instance_slot p1 b = Some c))"
proof (cases r)
  case (GetInstance b' config)
  with assms show ?thesis
    by (cases b; cases b')
       (auto simp add: connector_defs registered_def Let_def split: option.splits sum.splits prod.splits)
next
  case (Construct b' config)
  with assms show ?thesis by simp
qed

lemma run_get_only:
  assumes "list_all by_get_instance rs" and "live p b = registered p b" and "run env rs p = (xs, p')"
  shows "live p' b = registered p' b
       \<and> list_all2 (\<lambda>r x. target r = b \<longrightarrow> (case x of Inl e \<Rightarrow> True | Inr c \<Rightarrow> instance_slot p' b = Some c)) rs xs"
  using assms
proof (induction rs arbitrary: p xs p')
  case Nil
  then show ?case by simp
next
  case (Cons r rs)
  obtain x p1 where s1: "perform env r p = (x, p1)" by (cases "perform env r p")
  obtain ys p2 where s2: "run env rs p1 = (ys, p2)" by (cases "run env rs p1")
  from Cons.prems(3) s1 s2 have eq: "xs = x # ys" "p' = p2" by simp_all
  from Cons.prems(1) have g: "by_get_instance r" "list_all by_get_instance rs" by simp_all
  from perform_get_only [OF g(1) Cons.prems(2) s1]
  have a: "live p1 b = registered p1 b"
    "target r = b \<longrightarrow> (case x of Inl e \<Rightarrow> True | Inr c \<Rightarrow> instance_slot p1 b = Some c)" by simp_all
  from Cons.IH [OF g(2) a(1) s2]
  have ih: "live p2 b = registered p2 b"
    "list_all2 (\<lambda>r x. target r = b \<longrightarrow> (case x of Inl e \<Rightarrow> True | Inr c \<Rightarrow> instance_slot p2 b = Some c)) rs ys"
    by simp_all
  have "target r = b \<longrightarrow> (case x of Inl e \<Rightarrow> True | Inr c \<Rightarrow> instance_slot p2 b = Some c)"
  proof (cases x)
    case (Inl e)
    then show ?thesis by simp
  next
    case (Inr c)
    show ?thesis
    proof
      assume "target r = b"
      with a(2) Inr have "instance_slot p1 b = Some c" by simp
      from run_registered [OF this s2] Inr show "case x of Inl e \<Rightarrow> True | Inr c \<Rightarrow> instance_slot p2 b = Some c"
        by simp
    qed
  qed
  with ih show ?case unfolding eq by simp
qed

lemma registered_length: "length (registered p b) \<le> 1"
  by (simp add: registered_def split: option.splits)

text \<open>
  Claim C9, as amended. Once a \<open>get_instance\<close> call of a backend has returned a connector,
  the class attribute holds it, and in every later sequence of requests each \<open>get_instance\<close>
  for that backend returns that same connector, each direct constructor call for it raises,
  and no further connector of that kind comes into being. A process that asks for its
  connectors through \<open>get_instance\<close> only has at most one connector of each kind, the stored
  one, and every successful \<open>get_instance\<close> of a backend returns it.
\<close>

theorem registered_instance_is_unique:
  "(perform env (GetInstance b config) p = (Inr c, p1) \<and> run env rs p1 = (xs, p') \<longrightarrow>
       instance_slot p1 b = Some c \<and> instance_slot p' b = Some c \<and> live p' b = live p1 b
     \<and> list_all2 (\<lambda>r x. target r = b \<longrightarrow> x = answer_when_registered c r) rs xs)
   \<and> (list_all by_get_instance rs \<and> live p b = registered p b \<and> run env rs p = (xs, p') \<longrightarrow>
       live p' b = registered p' b \<and> length (live p' b) \<le> 1
     \<and> list_all2 (\<lambda>r x. target r = b \<longrightarrow> (case x of Inl e \<Rightarrow> True | Inr c \<Rightarrow> instance_slot p' b = Some c)) rs xs)"
proof (intro conjI impI)
  assume h: "perform env (GetInstance b config) p = (Inr c, p1) \<and> run env rs p1 = (xs, p')"
  then have s: "instance_slot p1 b = Some c" using get_instance_stores by blast
  from run_registered [OF s] h
  have r: "instance_slot p' b = Some c \<and> live p' b = live p1 b
       \<and> list_all2 (\<lambda>r x. target r = b \<longrightarrow> x = answer_when_registered c r) rs xs" by blast
  show "instance_slot p1 b = Some c" by (rule s)
  show "instance_slot p' b = Some c" using r by blast
  show "live p' b = live p1 b" using r by blast
  show "list_all2 (\<lambda>r x. target r = b \<longrightarrow> x = answer_when_registered c r) rs xs" using r by blast
next
  assume h: "list_all by_get_instance rs \<and> live p b = registered p b \<and> run env rs p = (xs, p')"
  then have g: "list_all by_get_instance rs" "live p b = registered p b" "run env rs p = (xs, p')"
    by blast+
  note r = run_get_only [OF g]
  show "live p' b = registered p' b" using r by blast
  then show "length (live p' b) \<le> 1" using registered_length [of p' b] by simp
  show "list_all2 (\<lambda>r x. target r = b \<longrightarrow> (case x of Inl e \<Rightarrow> True | Inr c \<Rightarrow> instance_slot p' b = Some c)) rs xs"
    using r by blast
qed

lemmas connect_defs = connect_to_s3_def connect_to_database_def connectAPI_def config_get_def
  ex_config_def ex_env_def and_then_def

text \<open>
  Claim C9, as stated, fails: in a fresh process two direct constructor calls both succeed
  and give two different storage connectors, and a \<open>get_instance\<close> after them makes a third
  one. A connector exists after the first call, yet the second call does not raise, and
  three connectors of one kind are alive at the end.
\<close>

theorem direct_construction_counterexample:
  "run ex_env [Construct S3 (Some ex_config), Construct S3 (Some ex_config), GetInstance S3 (Some ex_config)]
       fresh_process
   = ([Inr s3_conn0, Inr s3_conn1, Inr \<lparr>conn_id = 2, conn_kind = S3, conn_config = Some ex_config, conn_client = Some 2\<rparr>],
      \<lparr>spotify_instance = None,
       s3_instance = Some \<lparr>conn_id = 2, conn_kind = S3, conn_config = Some ex_config, conn_client = Some 2\<rparr>,
       mysql_instance = None,
       objects = [s3_conn0, s3_conn1, \<lparr>conn_id = 2, conn_kind = S3, conn_config = Some ex_config, conn_client = Some 2\<rparr>]\<rparr>)
   \<and> s3_conn0 \<noteq> s3_conn1"
  by (simp add: connector_defs connect_defs fresh_process_def s3_conn0_def s3_conn1_def Let_def)

text \<open>
  The hypotheses of C9: \<open>get_instance\<close> in a fresh process returns and stores the storage
  connector; afterwards both \<open>get_instance\<close> calls return it, the constructor raises, and the
  request for another backend in between changes nothing for this one. Two \<open>get_instance\<close>
  calls in a fresh process return one connector.
\<close>

theorem registered_instance_is_unique_witness:
  "perform ex_env (GetInstance S3 (Some ex_config)) fresh_process = (Inr s3_conn0, registered_process)
   \<and> run ex_env [GetInstance S3 None, Construct S3 (Some ex_config), GetInstance Spotify None,
                  GetInstance S3 (Some ex_config)] registered_process
      = ([Inr s3_conn0, Inl Exception,
          Inr \<lparr>conn_id = 1, conn_kind = Spotify, conn_config = None, conn_client = None\<rparr>, Inr s3_conn0],
         \<lparr>spotify_instance = Some \<lparr>conn_id = 1, conn_kind = Spotify, conn_config = None, conn_client = None\<rparr>,
          s3_instance = Some s3_conn0, mysql_instance = None,
          objects = [s3_conn0, \<lparr>conn_id = 1, conn_kind = Spotify, conn_config = None, conn_client = None\<rparr>]\<rparr>)
   \<and> instance_slot registered_process S3 = Some s3_conn0
   \<and> live \<lparr>spotify_instance = Some \<lparr>conn_id = 1, conn_kind = Spotify, conn_config = None, conn_client = None\<rparr>,
            s3_instance = Some s3_conn0, mysql_instance = None,
            objects = [s3_conn0, \<lparr>conn_id = 1, conn_kind = Spotify, conn_config = None, conn_client = None\<rparr>]\<rparr> S3
      = live registered_process S3
   \<and> list_all by_get_instance [GetInstance S3 (Some ex_config), GetInstance S3 None]
   \<and> live fresh_process S3 = registered fresh_process S3
   \<and> run ex_env [GetInstance S3 (Some ex_config), GetInstance S3 None] fresh_process
      = ([Inr s3_conn0, Inr s3_conn0], registered_process)
   \<and> live registered_process S3 = registered registered_process S3
   \<and> length (live registered_process S3) \<le> 1"
proof -
  have h1: "perform ex_env (GetInstance S3 (Some ex_config)) fresh_process = (Inr s3_conn0, registered_process)"
    by (simp add: connector_defs connect_defs fresh_process_def registered_process_def s3_conn0_def Let_def)
  have h2: "run ex_env [GetInstance S3 None, Construct S3 (Some ex_config), GetInstance Spotify None,
                  GetInstance S3 (Some ex_config)] registered_process
      = ([Inr s3_conn0, Inl Exception,
          Inr \<lparr>conn_id = 1, conn_kind = Spotify, conn_config = None, conn_client = None\<rparr>, Inr s3_conn0],
         \<lparr>spotify_instance = Some \<lparr>conn_id = 1, conn_kind = Spotify, conn_config = None, conn_client = None\<rparr>,
          s3_instance = Some s3_conn0, mysql_instance = None,
          objects = [s3_conn0, \<lparr>conn_id = 1, conn_kind = Spotify, conn_config = None, conn_client = None\<rparr>]\<rparr>)"
    by (simp add: connector_defs connect_defs registered_process_def s3_conn0_def Let_def)
  have h3: "list_all by_get_instance [GetInstance S3 (Some ex_config), GetInstance S3 None]" by simp
  have h4: "live fresh_process S3 = registered fresh_process S3"
    by (simp add: live_def registered_def instance_slot_def fresh_process_def)
  have h5: "run ex_env [GetInstance S3 (Some ex_config), GetInstance S3 None] fresh_process
      = ([Inr s3_conn0, Inr s3_conn0], registered_process)"
    by (simp add: connector_defs connect_defs fresh_process_def registered_process_def s3_conn0_def Let_def)
  note a = registered_instance_is_unique [THEN conjunct1, rule_format, OF conjI, OF h1 h2]
  note b = registered_instance_is_unique [THEN conjunct2, rule_format, OF conjI, OF h3 conjI, OF h4 h5]
  from a have a1: "instance_slot registered_process S3 = Some s3_conn0" by blast
  from a have a2: "live \<lparr>spotify_instance = Some \<lparr>conn_id = 1, conn_kind = Spotify, conn_config = None, conn_client = None\<rparr>,
            s3_instance = Some s3_conn0, mysql_instance = None,
            objects = [s3_conn0, \<lparr>conn_id = 1, conn_kind = Spotify, conn_config = None, conn_client = None\<rparr>]\<rparr> S3
      = live registered_process S3" by blast
  from b have b1: "live registered_process S3 = registered registered_process S3" by blast
  from b have b2: "length (live registered_process S3) \<le> 1" by blast
  from h1 h2 h3 h4 h5 a1 a2 b1 b2 show ?thesis by (intro conjI)
qed

section \<open>Removal of duplicates\<close>

lemma and_thenE:
  assumes "and_then m f = Inr y"
  obtains x where "m = Inr x" and "f x = Inr y"
  using assms by (cases m) (simp_all add: and_then_def)

lemma getcol_known: "getcol df c = Inr col \<Longrightarrow> c \<in> set (columns df)"
  by (simp add: getcol_def split: if_splits)


































section \<open>The header of the written files\<close>

lemma album_dict_keys:
  "album_dict data = Inr d \<Longrightarrow> map fst d = [''id'', ''name'', ''release_date'', ''total_tracks'', ''url'']"
  unfolding album_dict_def by (elim and_thenE) auto

lemma artist_dict_keys:
  "artist_dict a = Inr d \<Longrightarrow> map fst d = [''id'', ''name'', ''url'']"
  unfolding artist_dict_def by (elim and_thenE) auto

lemma song_dict_keys:
  "song_dict data = Inr d \<Longrightarrow>
     map fst d = [''id'', ''name'', ''added_at'', ''duration_ms'', ''popularity'', ''url'', ''album_id'', ''artist_ids'']"
  unfolding song_dict_def by (elim and_thenE) auto

lemma album_loop_keys:
  "album_loop ds acc = Inr out \<Longrightarrow> list_all (\<lambda>d. map fst d = K) acc \<Longrightarrow>
   K = [''id'', ''name'', ''release_date'', ''total_tracks'', ''url''] \<Longrightarrow> list_all (\<lambda>d. map fst d = K) out"
  by (induction ds arbitrary: acc) (auto split: sum.splits if_splits dest: album_dict_keys)

lemma song_loop_keys:
  "song_loop ds acc = Inr out \<Longrightarrow> list_all (\<lambda>d. map fst d = K) acc \<Longrightarrow>
   K = [''id'', ''name'', ''added_at'', ''duration_ms'', ''popularity'', ''url'', ''album_id'', ''artist_ids''] \<Longrightarrow>
   list_all (\<lambda>d. map fst d = K) out"
  by (induction ds arbitrary: acc) (auto split: sum.splits if_splits dest: song_dict_keys)

lemma artist_inner_keys:
  "artist_inner arts acc = Inr out \<Longrightarrow> list_all (\<lambda>d. map fst d = K) acc \<Longrightarrow>
   K = [''id'', ''name'', ''url''] \<Longrightarrow> list_all (\<lambda>d. map fst d = K) out"
  by (induction arts arbitrary: acc) (auto split: sum.splits dest: artist_dict_keys)

lemma artist_loop_keys:
  "artist_loop ds acc = Inr out \<Longrightarrow> list_all (\<lambda>d. map fst d = K) acc \<Longrightarrow>
   K = [''id'', ''name'', ''url''] \<Longrightarrow> list_all (\<lambda>d. map fst d = K) out"
proof (induction ds arbitrary: acc)
  case Nil
  then show ?case by simp
next
  case (Cons data rest)
  then show ?case
    by (auto split: sum.splits if_splits dest: artist_inner_keys)
qed

lemma first_seen_append: "first_seen (xs @ ys) seen = first_seen ys (first_seen xs seen)"
  by (induction xs arbitrary: seen) simp_all

lemma first_seen_known: "set ks \<subseteq> set seen \<Longrightarrow> first_seen ks seen = seen"
  by (induction ks arbitrary: seen) simp_all

lemma first_seen_distinct: "distinct (seen @ ks) \<Longrightarrow> first_seen ks seen = seen @ ks"
  by (induction ks arbitrary: seen) simp_all

lemma keys_of_uniform:
  "list_all (\<lambda>d. map fst d = K) recs \<Longrightarrow> set (concat (map (map fst) recs)) \<subseteq> set K"
  by (induction recs) auto

lemma pd_DataFrame_columns:
  assumes "list_all (\<lambda>d. map fst d = K) recs" and "distinct K" and "recs \<noteq> []"
  shows "columns (pd_DataFrame (Some recs)) = K"
proof -
  from assms(3) obtain r rs where recs: "recs = r # rs" by (cases recs) auto
  with assms(1) have r: "map fst r = K" and rs: "list_all (\<lambda>d. map fst d = K) rs" by simp_all
  have "first_seen (concat (map (map fst) recs)) [] = first_seen (concat (map (map fst) rs)) (first_seen K [])"
    by (simp add: recs r first_seen_append)
  also have "first_seen K [] = K" using first_seen_distinct [of "[]" K] assms(2) by simp
  also have "first_seen (concat (map (map fst) rs)) K = K"
    using keys_of_uniform [OF rs] by (rule first_seen_known)
  finally show ?thesis by (simp add: pd_DataFrame_def record_keys_def Let_def)
qed

lemma pd_DataFrame_columns_or_empty:
  assumes "case data of None \<Rightarrow> True | Some recs \<Rightarrow> list_all (\<lambda>d. map fst d
        = K) recs" and "distinct K"
  shows "columns (pd_DataFrame data) = K \<or> columns (pd_DataFrame data) = []"
proof (cases data)
  case None
  then show ?thesis by (simp add: pd_DataFrame_def empty_frame_def)
next
  case (Some recs)
  show ?thesis
  proof (cases "recs = []")
    case True
    with Some show ?thesis by (simp add: pd_DataFrame_def record_keys_def)
  next
    case False
    with Some assms pd_DataFrame_columns [of K recs] show ?thesis by simp
  qed
qed

lemma drop_duplicates_columns: "drop_duplicates df c = Inr df' \<Longrightarrow> columns df' = columns df"
  by (auto simp add: drop_duplicates_def split: if_splits)

lemma setcol_columns:
  "setcol df d vals = Inr df' \<Longrightarrow> d \<in> set (columns df) \<Longrightarrow> columns df' = columns df"
  by (auto simp add: setcol_def split: if_splits)

lemma convert_body_columns:
  assumes "and_then (drop_duplicates df0 ''id'') (\<lambda>df1.
           and_then (getcol df1 d) (\<lambda>col.
           and_then (to_datetime env col) (\<lambda>converted.
           setcol df1 d converted))) = Inr df"
  shows "columns df = columns df0"
proof -
  from assms obtain df1 where dd: "drop_duplicates df0 ''id'' = Inr df1"
    and rest1: "and_then (getcol df1 d) (\<lambda>col. and_then (to_datetime env col) (\<lambda>converted. setcol df1 d converted)) = Inr df"
    by (rule and_thenE)
  from rest1 obtain col where gc: "getcol df1 d = Inr col"
    and rest2: "and_then (to_datetime env col) (\<lambda>converted. setcol df1 d converted) = Inr df"
    by (rule and_thenE)
  from rest2 obtain converted where sc: "setcol df1 d converted = Inr df"
    by (rule and_thenE)
  from setcol_columns [OF sc getcol_known [OF gc]] drop_duplicates_columns [OF dd]
  show ?thesis by simp
qed

lemma extract_album_keys:
  "case extract_album_data doc of None \<Rightarrow> True
   | Some recs \<Rightarrow> list_all (\<lambda>d. map fst d = [''id'', ''name'', ''release_date'',
         ''total_tracks'', ''url'']) recs"
proof (cases "extract_album_body doc")
  case (Inl e)
  then show ?thesis by (simp add: extract_album_data_def)
next
  case (Inr recs)
  then obtain its ds where "album_loop ds [] = Inr recs"
    unfolding extract_album_body_def by (elim and_thenE)
  from album_loop_keys [OF this] Inr show ?thesis by (simp add: extract_album_data_def)
qed

lemma extract_artist_keys:
  "case extract_artist_data doc of None \<Rightarrow> True
   | Some recs \<Rightarrow> list_all (\<lambda>d. map fst d = [''id'', ''name'', ''url'']) recs"
proof (cases "extract_artist_body doc")
  case (Inl e)
  then show ?thesis by (simp add: extract_artist_data_def)
next
  case (Inr recs)
  then obtain its ds where "artist_loop ds [] = Inr recs"
    unfolding extract_artist_body_def by (elim and_thenE)
  from artist_loop_keys [OF this] Inr show ?thesis by (simp add: extract_artist_data_def)
qed

lemma extract_song_keys:
  "case extract_song_data doc arg of None \<Rightarrow> True
   | Some recs \<Rightarrow> list_all (\<lambda>d. map fst d =
        [''id'', ''name'', ''added_at'', ''duration_ms'', ''popularity'', ''url'', ''album_id'', ''artist_ids'']) recs"
proof (cases "extract_song_body doc arg")
  case (Inl e)
  then show ?thesis by (simp add: extract_song_data_def)
next
  case (Inr recs)
  then obtain its ds where "song_loop ds [] = Inr recs"
    unfolding extract_song_body_def by (elim and_thenE)
  from song_loop_keys [OF this] Inr show ?thesis by (simp add: extract_song_data_def)
qed

lemma album_table_columns:
  "\<not> df_empty (transform_album_data env (extract_album_data doc)) \<Longrightarrow>
   columns (transform_album_data env (extract_album_data doc)) = [''id'', ''name'', ''release_date'', ''total_tracks'', ''url'']"
proof -
  let ?data = "extract_album_data doc"
  assume ne: "\<not> df_empty (transform_album_data env ?data)"
  then have "transform_album_data env ?data \<noteq> empty_frame" by (auto simp add: df_empty_def empty_frame_def)
  then have b: "transform_album_body env ?data = Inr (transform_album_data env ?data)"
    by (cases "transform_album_body env ?data") (simp_all add: transform_album_data_def)
  from convert_body_columns [OF b [unfolded transform_album_body_def]]
  have "columns (transform_album_data env ?data) = columns (pd_DataFrame ?data)" .
  with pd_DataFrame_columns_or_empty [OF extract_album_keys [of doc]] ne
  show ?thesis by (auto simp add: df_empty_def)
qed

lemma song_table_columns:
  "\<not> df_empty (transform_song_data env (extract_song_data doc arg)) \<Longrightarrow>
   columns (transform_song_data env (extract_song_data doc arg)) =
     [''id'', ''name'', ''added_at'', ''duration_ms'', ''popularity'', ''url'', ''album_id'', ''artist_ids'']"
proof -
  let ?data = "extract_song_data doc arg"
  assume ne: "\<not> df_empty (transform_song_data env ?data)"
  then have "transform_song_data env ?data \<noteq> empty_frame" by (auto simp add: df_empty_def empty_frame_def)
  then have b: "transform_song_body env ?data = Inr (transform_song_data env ?data)"
    by (cases "transform_song_body env ?data") (simp_all add: transform_song_data_def)
  from convert_body_columns [OF b [unfolded transform_song_body_def]]
  have "columns (transform_song_data env ?data) = columns (pd_DataFrame ?data)" .
  with pd_DataFrame_columns_or_empty [OF extract_song_keys [of doc arg]] ne
  show ?thesis by (auto simp add: df_empty_def)
qed

lemma artist_table_columns:
  "\<not> df_empty (transform_artist_data env (extract_artist_data doc)) \<Longrightarrow>
   columns (transform_artist_data env (extract_artist_data doc)) = [''id'', ''name'', ''url'']"
proof -
  let ?data = "extract_artist_data doc"
  assume ne: "\<not> df_empty (transform_artist_data env ?data)"
  then have "transform_artist_data env ?data \<noteq> empty_frame" by (auto simp add: df_empty_def empty_frame_def)
  then have b: "transform_artist_body env ?data = Inr (transform_artist_data env ?data)"
    by (cases "transform_artist_body env ?data") (simp_all add: transform_artist_data_def)
  from drop_duplicates_columns [OF b [unfolded transform_artist_body_def]]
  have "columns (transform_artist_data env ?data) = columns (pd_DataFrame ?data)" .
  with pd_DataFrame_columns_or_empty [OF extract_artist_keys [of doc]] ne
  show ?thesis by (auto simp add: df_empty_def)
qed

lemma header_lines:
  "csv_line [''id'', ''name'', ''release_date'', ''total_tracks'', ''url''] = ''id,name,release_date,total_tracks,url''"
  "csv_line [''id'', ''name'', ''url''] = ''id,name,url''"
  "csv_line [''id'', ''name'', ''added_at'', ''duration_ms'', ''popularity'', ''url'', ''album_id'', ''artist_ids'']
     = ''id,name,added_at,duration_ms,popularity,url,album_id,artist_ids''"
  by (simp_all add: csv_line_def csv_quote_def)

lemma validate_and_save_written:
  "validate_and_save env (Some df) filepath fs = (Inr u, fs') \<Longrightarrow>
     \<not> df_empty df \<and> fs' = (filepath,
           csv_line (columns df) # map (\<lambda>r. csv_line (map (cell_text env) r)) (rows df)) # fs"
  by (auto simp add: validate_and_save_def to_csv_def split: if_splits)

lemma validate_and_upload_written:
  "validate_and_upload env self (Some df) s3_key ups = (Inr uri, ups') \<Longrightarrow>
     \<not> df_empty df \<and> ups' = ups @ [(bucket_name self, s3_key,
         csv_line (columns df) # map (\<lambda>r. csv_line (map (cell_text env) r)) (rows df), ''text/csv'')]"
  by (auto simp add: validate_and_upload_def to_csv_def Let_def split: if_splits option.splits)

text \<open>
  Claim C8, as amended. Whenever a sink, local or cloud, writes the table that a transform
  method made from the records of an extraction method, the first line of the CSV text is
  the list of the record's field names, without an index column: \<open>id, name, release_date,
  total_tracks, url\<close> for albums, \<open>id, name, url\<close> for artists, and \<open>id, name, added_at,
  duration_ms, popularity, url, album_id, artist_ids\<close> for songs.
\<close>

theorem csv_header_is_field_names:
  "(validate_and_save env (Some (transform_album_data env (extract_album_data doc))) filepath fs = (Inr (), fs_album)
      \<longrightarrow> (\<exists>body. fs_album = (filepath, ''id,name,release_date,total_tracks,url'' # body) # fs))
   \<and> (validate_and_save env (Some (transform_artist_data env (extract_artist_data doc))) filepath fs = (Inr (), fs_artist)
      \<longrightarrow> (\<exists>body. fs_artist = (filepath, ''id,name,url'' # body) # fs))
   \<and> (validate_and_save env (Some (transform_song_data env (extract_song_data doc arg))) filepath fs = (Inr (), fs_song)
      \<longrightarrow> (\<exists>body. fs_song = (filepath,
            ''id,name,added_at,duration_ms,popularity,url,album_id,artist_ids'' # body) # fs))
   \<and> (validate_and_upload env self (Some (transform_album_data env (extract_album_data doc))) s3_key ups = (Inr uri_album, ups_album)
      \<longrightarrow> (\<exists>body. ups_album = ups @ [(bucket_name self, s3_key,
            ''id,name,release_date,total_tracks,url'' # body, ''text/csv'')]))
   \<and> (validate_and_upload env self (Some (transform_artist_data env (extract_artist_data doc))) s3_key ups = (Inr uri_artist, ups_artist)
      \<longrightarrow> (\<exists>body. ups_artist = ups @ [(bucket_name self, s3_key, ''id,name,url'' # body, ''text/csv'')]))
   \<and> (validate_and_upload env self (Some (transform_song_data env (extract_song_data doc arg))) s3_key ups = (Inr uri_song, ups_song)
      \<longrightarrow> (\<exists>body. ups_song = ups @ [(bucket_name self, s3_key,
             ''id,name,added_at,duration_ms,popularity,url,album_id,artist_ids'' # body, ''text/csv'')]))"
proof (intro conjI impI)
  assume "validate_and_save env (Some (transform_album_data env (extract_album_data doc))) filepath fs = (Inr (), fs_album)"
  from validate_and_save_written [OF this] album_table_columns [of env doc]
  show "\<exists>body. fs_album = (filepath, ''id,name,release_date,total_tracks,url'' # body) # fs"
    by (simp add: header_lines)
next
  assume "validate_and_save env (Some (transform_artist_data env (extract_artist_data doc))) filepath fs = (Inr (), fs_artist)"
  from validate_and_save_written [OF this] artist_table_columns [of env doc]
  show "\<exists>body. fs_artist = (filepath, ''id,name,url'' # body) # fs"
    by (simp add: header_lines)
next
  assume "validate_and_save env (Some (transform_song_data env (extract_song_data doc arg))) filepath fs = (Inr (), fs_song)"
  from validate_and_save_written [OF this] song_table_columns [of env doc arg]
  show "\<exists>body. fs_song = (filepath, ''id,name,added_at,duration_ms,popularity,url,album_id,artist_ids'' # body) # fs"
    by (simp add: header_lines)
next
  assume "validate_and_upload env self (Some (transform_album_data env (extract_album_data doc))) s3_key ups = (Inr uri_album, ups_album)"
  from validate_and_upload_written [OF this] album_table_columns [of env doc]
  show "\<exists>body. ups_album = ups @ [(bucket_name self, s3_key,
        ''id,name,release_date,total_tracks,url'' # body, ''text/csv'')]"
    by (simp add: header_lines)
next
  assume "validate_and_upload env self (Some (transform_artist_data env (extract_artist_data doc))) s3_key ups = (Inr uri_artist, ups_artist)"
  from validate_and_upload_written [OF this] artist_table_columns [of env doc]
  show "\<exists>body. ups_artist = ups @ [(bucket_name self, s3_key, ''id,name,url'' # body, ''text/csv'')]"
    by (simp add: header_lines)
next
  assume "validate_and_upload env self (Some (transform_song_data env (extract_song_data doc arg))) s3_key ups = (Inr uri_song, ups_song)"
  from validate_and_upload_written [OF this] song_table_columns [of env doc arg]
  show "\<exists>body. ups_song = ups @ [(bucket_name self, s3_key,
             ''id,name,added_at,duration_ms,popularity,url,album_id,artist_ids'' # body, ''text/csv'')]"
    by (simp add: header_lines)
qed

lemma ex_tables:
  "ex_album_table =
     \<lparr>columns = [''id'', ''name'', ''release_date'', ''total_tracks'', ''url''],
      rows = [[Val (JStr ''X''), Val (JStr ''album X''), Timestamp 0, Val (JNum 12),
               Val (JStr ''https://open.spotify.com/album/X'')]]\<rparr>"
  "ex_artist_table =
     \<lparr>columns = [''id'', ''name'', ''url''],
      rows = [[Val (JStr ''a1''), Val (JStr ''artist a1''), Val (JStr ''https://open.spotify.com/artist/a1'')]]\<rparr>"
  "ex_song_table =
     \<lparr>columns = [''id'', ''name'', ''added_at'', ''duration_ms'', ''popularity'', ''url'', ''album_id'', ''artist_ids''],
      rows = [[Val (JStr ''tA''), Val (JStr ''song tA''), Timestamp 0, Val (JNum 1000), Val (JNum 50),
               Val (JStr ''https://open.spotify.com/track/tA''), Val (JStr ''X''), Val (JStr ''a1'')]]\<rparr>"
  by (simp_all add: ex_album_table_def ex_artist_table_def ex_song_table_def fixture_defs extract_defs
      transform_defs table_defs ex_env_def)

lemmas sink_defs = validate_and_save_def validate_and_upload_def to_csv_def csv_line_def csv_quote_def
  plain_text_def df_empty_def ex_env_def ex_s3_loader_def Let_def

lemma ex_files:
  "validate_and_save ex_env (Some ex_album_table) ''data/album_data_p1.csv'' [] =
     (Inr (), [(''data/album_data_p1.csv'',
                [''id,name,release_date,total_tracks,url'', ''X,album X,,,https://open.spotify.com/album/X''])])"
  "validate_and_save ex_env (Some ex_artist_table) ''data/artist_data_p1.csv'' [] =
     (Inr (), [(''data/artist_data_p1.csv'',
                [''id,name,url'', ''a1,artist a1,https://open.spotify.com/artist/a1''])])"
  "validate_and_save ex_env (Some ex_song_table) ''data/song_data_p1.csv'' [] =
     (Inr (), [(''data/song_data_p1.csv'',
                [''id,name,added_at,duration_ms,popularity,url,album_id,artist_ids'',
                 ''tA,song tA,,,,https://open.spotify.com/track/tA,X,a1''])])"
  by (simp_all add: ex_tables sink_defs)

lemma ex_uploads:
  "validate_and_upload ex_env ex_s3_loader (Some ex_album_table) ''albums.csv'' [] =
     (Inr ''s3://bucket/albums.csv'',
      [(''bucket'', ''albums.csv'',
        [''id,name,release_date,total_tracks,url'', ''X,album X,,,https://open.spotify.com/album/X''], ''text/csv'')])"
  "validate_and_upload ex_env ex_s3_loader (Some ex_artist_table) ''artists.csv'' [] =
     (Inr ''s3://bucket/artists.csv'',
      [(''bucket'', ''artists.csv'',
        [''id,name,url'', ''a1,artist a1,https://open.spotify.com/artist/a1''], ''text/csv'')])"
  "validate_and_upload ex_env ex_s3_loader (Some ex_song_table) ''songs.csv'' [] =
     (Inr ''s3://bucket/songs.csv'',
      [(''bucket'', ''songs.csv'',
        [''id,name,added_at,duration_ms,popularity,url,album_id,artist_ids'',
         ''tA,song tA,,,,https://open.spotify.com/track/tA,X,a1''], ''text/csv'')])"
  by (simp_all add: ex_tables sink_defs)

text \<open>
  Claim C8, as stated, fails: the last column of the song file is named \<open>artist_ids\<close>, the
  key of the dict that \<open>extract_song_data\<close> builds, and not \<open>artist_id\<close>. The file written
  by the local sink for the document of \<open>item_A\<close>:
\<close>

theorem song_header_counterexample:
  "validate_and_save ex_env (Some (transform_song_data ex_env (extract_song_data (mk_doc [item_A]) JNull)))
       ''data/song_data_p1.csv'' [] =
     (Inr (), [(''data/song_data_p1.csv'',
                [''id,name,added_at,duration_ms,popularity,url,album_id,artist_ids'',
                 ''tA,song tA,,,,https://open.spotify.com/track/tA,X,a1''])])
   \<and> ''id,name,added_at,duration_ms,popularity,url,album_id,artist_ids''
       \<noteq> ''id,name,added_at,duration_ms,popularity,url,album_id,artist_id''"
  using ex_files(3) by (simp add: ex_song_table_def)

text \<open>
  The hypotheses of C8 for the document of \<open>item_A\<close>: the three local files and the three
  uploads are written, each with its header.
\<close>

theorem csv_header_is_field_names_witness:
  "validate_and_save ex_env (Some ex_album_table) ''data/album_data_p1.csv'' [] = (Inr (),
        [(''data/album_data_p1.csv'', [''id,name,release_date,total_tracks,url'',
        ''X,album X,,,https://open.spotify.com/album/X''])])
   \<and> (\<exists>body. [(''data/album_data_p1.csv'', [''id,name,release_date,total_tracks,url'',
         ''X,album X,,,https://open.spotify.com/album/X''])] = [(''data/album_data_p1.csv'',
         ''id,name,release_date,total_tracks,url'' # body)])
   \<and> validate_and_save ex_env (Some ex_artist_table) ''data/artist_data_p1.csv'' [] = (Inr (),
         [(''data/artist_data_p1.csv'', [''id,name,url'',
         ''a1,artist a1,https://open.spotify.com/artist/a1''])])
   \<and> (\<exists>body. [(''data/artist_data_p1.csv'', [''id,name,url'',
         ''a1,artist a1,https://open.spotify.com/artist/a1''])] = [(''data/artist_data_p1.csv'',
         ''id,name,url'' # body)])
   \<and> validate_and_save ex_env (Some ex_song_table) ''data/song_data_p1.csv'' [] = (Inr (),
         [(''data/song_data_p1.csv'', [''id,name,added_at,duration_ms,popularity,url,album_id,artist_ids'',
         ''tA,song tA,,,,https://open.spotify.com/track/tA,X,a1''])])
   \<and> (\<exists>body. [(''data/song_data_p1.csv'',
         [''id,name,added_at,duration_ms,popularity,url,album_id,artist_ids'',
         ''tA,song tA,,,,https://open.spotify.com/track/tA,X,a1''])] = [(''data/song_data_p1.csv'',
         ''id,name,added_at,duration_ms,popularity,url,album_id,artist_ids'' # body)])
   \<and> validate_and_upload ex_env ex_s3_loader (Some ex_album_table) ''albums.csv'' []
         = (Inr ''s3://bucket/albums.csv'', [(''bucket'', ''albums.csv'',
         [''id,name,release_date,total_tracks,url'', ''X,album X,,,https://open.spotify.com/album/X''],
         ''text/csv'')])
   \<and> (\<exists>body. [(''bucket'', ''albums.csv'', [''id,name,release_date,total_tracks,url'',
         ''X,album X,,,https://open.spotify.com/album/X''], ''text/csv'')] = [] @ [(bucket_name ex_s3_loader,
         ''albums.csv'', ''id,name,release_date,total_tracks,url'' # body, ''text/csv'')])
   \<and> validate_and_upload ex_env ex_s3_loader (Some ex_artist_table) ''artists.csv'' []
         = (Inr ''s3://bucket/artists.csv'', [(''bucket'', ''artists.csv'', [''id,name,url'',
         ''a1,artist a1,https://open.spotify.com/artist/a1''], ''text/csv'')])
   \<and> (\<exists>body. [(''bucket'', ''artists.csv'', [''id,name,url'',
         ''a1,artist a1,https://open.spotify.com/artist/a1''], ''text/csv'')]
         = [] @ [(bucket_name ex_s3_loader, ''artists.csv'', ''id,name,url'' # body, ''text/csv'')])
   \<and> validate_and_upload ex_env ex_s3_loader (Some ex_song_table) ''songs.csv'' []
         = (Inr ''s3://bucket/songs.csv'', [(''bucket'', ''songs.csv'',
         [''id,name,added_at,duration_ms,popularity,url,album_id,artist_ids'',
         ''tA,song tA,,,,https://open.spotify.com/track/tA,X,a1''], ''text/csv'')])
   \<and> (\<exists>body. [(''bucket'', ''songs.csv'',
         [''id,name,added_at,duration_ms,popularity,url,album_id,artist_ids'',
         ''tA,song tA,,,,https://open.spotify.com/track/tA,X,a1''], ''text/csv'')]
         = [] @ [(bucket_name ex_s3_loader, ''songs.csv'',
         ''id,name,added_at,duration_ms,popularity,url,album_id,artist_ids'' # body, ''text/csv'')])"
proof -
  note t = csv_header_is_field_names
    [where env = ex_env and doc = "mk_doc [item_A]" and arg = JNull and fs = "[]" and ups = "[]"
       and self = ex_s3_loader,
     folded ex_album_table_def ex_artist_table_def ex_song_table_def]
  from t [where filepath = "''data/album_data_p1.csv''" and fs_album = "[(''data/album_data_p1.csv'',
        [''id,name,release_date,total_tracks,url'',
        ''X,album X,,,https://open.spotify.com/album/X''])]"] ex_files(1)
  have f1: "\<exists>body. [(''data/album_data_p1.csv'', [''id,name,release_date,total_tracks,url'',
        ''X,album X,,,https://open.spotify.com/album/X''])] = [(''data/album_data_p1.csv'',
        ''id,name,release_date,total_tracks,url'' # body)]" by blast
  from t [where filepath = "''data/artist_data_p1.csv''" and fs_artist = "[(''data/artist_data_p1.csv'',
        [''id,name,url'', ''a1,artist a1,https://open.spotify.com/artist/a1''])]"] ex_files(2)
  have f2: "\<exists>body. [(''data/artist_data_p1.csv'', [''id,name,url'',
        ''a1,artist a1,https://open.spotify.com/artist/a1''])] = [(''data/artist_data_p1.csv'',
        ''id,name,url'' # body)]" by blast
  from t [where filepath = "''data/song_data_p1.csv''" and fs_song = "[(''data/song_data_p1.csv'',
        [''id,name,added_at,duration_ms,popularity,url,album_id,artist_ids'',
        ''tA,song tA,,,,https://open.spotify.com/track/tA,X,a1''])]"] ex_files(3)
  have f3: "\<exists>body. [(''data/song_data_p1.csv'',
        [''id,name,added_at,duration_ms,popularity,url,album_id,artist_ids'',
        ''tA,song tA,,,,https://open.spotify.com/track/tA,X,a1''])] = [(''data/song_data_p1.csv'',
        ''id,name,added_at,duration_ms,popularity,url,album_id,artist_ids'' # body)]" by blast
  from t [where s3_key = "''albums.csv''" and uri_album = "''s3://bucket/albums.csv''" and ups_album
        = "[(''bucket'', ''albums.csv'', [''id,name,release_date,total_tracks,url'',
        ''X,album X,,,https://open.spotify.com/album/X''], ''text/csv'')]"] ex_uploads(1)
  have u1: "\<exists>body. [(''bucket'', ''albums.csv'', [''id,name,release_date,total_tracks,url'',
        ''X,album X,,,https://open.spotify.com/album/X''], ''text/csv'')] = [] @ [(bucket_name ex_s3_loader,
        ''albums.csv'', ''id,name,release_date,total_tracks,url'' # body, ''text/csv'')]" by blast
  from t [where s3_key = "''artists.csv''" and uri_artist = "''s3://bucket/artists.csv''" and ups_artist
        = "[(''bucket'', ''artists.csv'', [''id,name,url'',
        ''a1,artist a1,https://open.spotify.com/artist/a1''], ''text/csv'')]"] ex_uploads(2)
  have u2: "\<exists>body. [(''bucket'', ''artists.csv'', [''id,name,url'',
        ''a1,artist a1,https://open.spotify.com/artist/a1''], ''text/csv'')]
        = [] @ [(bucket_name ex_s3_loader, ''artists.csv'', ''id,name,url'' # body, ''text/csv'')]" by blast
  from t [where s3_key = "''songs.csv''" and uri_song = "''s3://bucket/songs.csv''" and ups_song
        = "[(''bucket'', ''songs.csv'', [''id,name,added_at,duration_ms,popularity,url,album_id,artist_ids'',
        ''tA,song tA,,,,https://open.spotify.com/track/tA,X,a1''], ''text/csv'')]"] ex_uploads(3)
  have u3: "\<exists>body. [(''bucket'', ''songs.csv'',
        [''id,name,added_at,duration_ms,popularity,url,album_id,artist_ids'',
        ''tA,song tA,,,,https://open.spotify.com/track/tA,X,a1''], ''text/csv'')]
        = [] @ [(bucket_name ex_s3_loader, ''songs.csv'',
        ''id,name,added_at,duration_ms,popularity,url,album_id,artist_ids'' # body, ''text/csv'')]" by blast
  from ex_files ex_uploads f1 f2 f3 u1 u2 u3 show ?thesis by blast
qed

end
